theory Spec2Isabelle
  imports Complex_Main
begin

section \<open>Python values and exceptions\<close>

text \<open>
  The exceptions that can occur in \<^verbatim>\<open>sensor.py\<close>. The first six are instances of
  Python's \<^verbatim>\<open>Exception\<close>; \<open>OtherException\<close> stands for any other subclass of
  \<^verbatim>\<open>Exception\<close> the API client may raise (a network error, say). The last three derive
  from \<^verbatim>\<open>BaseException\<close> only, so a clause \<^verbatim>\<open>except Exception\<close> does not
  catch them.
\<close>

datatype exn =
    KeyError string
  | TypeError
  | OverflowError
  | ValueError
  | ZeroDivisionError
  | OtherException string
  | CancelledError
  | KeyboardInterrupt
  | SystemExit

fun isinstance_Exception :: "exn \<Rightarrow> bool" where
  "isinstance_Exception CancelledError = False"
| "isinstance_Exception KeyboardInterrupt = False"
| "isinstance_Exception SystemExit = False"
| "isinstance_Exception e = True"

text \<open>
  A Python \<^verbatim>\<open>float\<close> is an IEEE 754 binary64 number: a finite value (kept here as the
  rational it denotes), an infinity or a NaN. The sign of zero is not kept: \<^verbatim>\<open>round\<close>
  returns the integer \<open>0\<close> for both zeros.
\<close>

datatype pyfloat = Fin rat | PInf | NInf | NaN

datatype pyval = PyNone | PyBool bool | PyInt int | PyFloat pyfloat | PyStr string

subsection \<open>Rounding\<close>

text \<open>\<open>pow2 k\<close> is \<open>2\<close> to the power \<open>k\<close> for an integer \<open>k\<close> of either sign.\<close>

definition pow2 :: "int \<Rightarrow> rat" where
  "pow2 k = (if 0 \<le> k then 2 ^ nat k else 1 / 2 ^ nat (- k))"

text \<open>Rounding a rational to the nearest integer, a tie going to the even neighbour.\<close>

definition round_half_even :: "rat \<Rightarrow> int" where
  "round_half_even q =
     (let f = \<lfloor>q\<rfloor>; d = q - of_int f in
      if d < 1 / 2 then f
      else if 1 / 2 < d then f + 1
      else if even f then f else f + 1)"

text \<open>The number of bits of a positive integer, as \<^verbatim>\<open>int.bit_length\<close> gives it.\<close>

function bit_length :: "int \<Rightarrow> int" where
  "bit_length n = (if n \<le> 0 then 0 else 1 + bit_length (n div 2))"
  by pat_completeness auto
termination
  by (relation "measure nat") auto

declare bit_length.simps [simp del]

text \<open>
  The binary exponent of a non-zero rational: the \<open>e\<close> with \<open>2^e \<le> |q| < 2^(e+1)\<close>,
  found from the bit lengths of numerator and denominator.
\<close>

definition exponent :: "rat \<Rightarrow> int" where
  "exponent q =
     (let (a, b) = quotient_of \<bar>q\<bar>;
          k = bit_length a - bit_length b
      in if pow2 k \<le> \<bar>q\<bar> then k else k - 1)"

text \<open>
  Rounding to binary64 precision (53 significant bits, ties to even), with the fixed
  spacing \<open>2^-1074\<close> of the subnormal range and no upper bound on the exponent; the
  callers decide what a result of magnitude \<open>2^1024\<close> or more becomes.
\<close>

definition round_to_double :: "rat \<Rightarrow> rat" where
  "round_to_double q =
     (if q = 0 then 0
      else let ulp = pow2 (max (exponent q) (- 1022) - 52)
           in of_int (round_half_even (q / ulp)) * ulp)"

definition too_large :: "rat \<Rightarrow> bool" where
  "too_large r = (r \<noteq> 0 \<and> 1024 \<le> exponent r)"

text \<open>
  \<^verbatim>\<open>a / b\<close> for two Python ints: the correctly rounded quotient, or
  \<^verbatim>\<open>OverflowError\<close> when it does not fit a float.
\<close>

definition int_truediv :: "int \<Rightarrow> int \<Rightarrow> exn + pyfloat" where
  "int_truediv a b =
     (if b = 0 then Inl ZeroDivisionError
      else let r = round_to_double (of_int a / of_int b)
           in if too_large r then Inl OverflowError else Inr (Fin r))"

text \<open>
  \<^verbatim>\<open>x / b\<close> for a float \<open>x\<close> and an int \<open>b\<close>: \<open>b\<close> is converted to a float first
  (which raises when it is too large), then the floats are divided; a float division
  that overflows gives an infinity, it does not raise.
\<close>

definition float_truediv :: "pyfloat \<Rightarrow> int \<Rightarrow> exn + pyfloat" where
  "float_truediv x b =
     (let fb = round_to_double (of_int b) in
      if too_large fb then Inl OverflowError
      else if fb = 0 then Inl ZeroDivisionError
      else case x of
          NaN \<Rightarrow> Inr NaN
        | PInf \<Rightarrow> Inr (if 0 < fb then PInf else NInf)
        | NInf \<Rightarrow> Inr (if 0 < fb then NInf else PInf)
        | Fin q \<Rightarrow>
            (let r = round_to_double (q / fb) in
             if too_large r then Inr (if 0 < r then PInf else NInf) else Inr (Fin r)))"

text \<open>\<^verbatim>\<open>raw_value / b\<close> with an int literal \<open>b\<close>; a bool is an int in Python.\<close>

fun py_truediv :: "pyval \<Rightarrow> int \<Rightarrow> exn + pyfloat" where
  "py_truediv (PyInt a) b = int_truediv a b"
| "py_truediv (PyBool p) b = int_truediv (if p then 1 else 0) b"
| "py_truediv (PyFloat x) b = float_truediv x b"
| "py_truediv PyNone b = Inl TypeError"
| "py_truediv (PyStr s) b = Inl TypeError"

text \<open>
  \<^verbatim>\<open>round(x)\<close> of a float, with no second argument: an int, ties to even;
  an infinity raises \<^verbatim>\<open>OverflowError\<close> and a NaN \<^verbatim>\<open>ValueError\<close>.
\<close>

fun py_round :: "pyfloat \<Rightarrow> exn + int" where
  "py_round (Fin q) = Inr (round_half_even q)"
| "py_round PInf = Inl OverflowError"
| "py_round NInf = Inl OverflowError"
| "py_round NaN = Inl ValueError"

text \<open>The expression \<^verbatim>\<open>round(raw_value / d)\<close> of the three scaled sensors.\<close>

definition round_div :: "pyval \<Rightarrow> int \<Rightarrow> exn + pyval" where
  "round_div raw_value d =
     (case py_truediv raw_value d of
        Inl e \<Rightarrow> Inl e
      | Inr q \<Rightarrow> (case py_round q of Inl e \<Rightarrow> Inl e | Inr n \<Rightarrow> Inr (PyInt n)))"

section \<open>The API client and the entities\<close>

text \<open>
  The API client is not part of \<^verbatim>\<open>sensor.py\<close>. An entity reads its \<^verbatim>\<open>device_id\<close>
  and \<^verbatim>\<open>device_info\<close> once, at construction. What \<^verbatim>\<open>update()\<close> and
  \<^verbatim>\<open>get_sensor_data()\<close> do in one refresh cycle is an input of that cycle:
  \<open>upd\<close> is the outcome of awaiting \<^verbatim>\<open>update()\<close> (an exception or the raw data), and
  \<open>gsd\<close> is \<^verbatim>\<open>get_sensor_data\<close>, from raw data to an exception or a dict.
\<close>

type_synonym device_info = "(string \<times> string) list"

record cocoro_air_api =
  device_id :: string
  device_info :: device_info

type_synonym snapshot = "string \<rightharpoonup> pyval"

datatype sensor_class =
    Temperature
  | Humidity
  | WaterTank
  | PM25
  | CleanedAirVolume
  | OdorLevel
  | DustLevel
  | CleanlinessLevel

datatype unit_of_measurement = CELSIUS | PERCENTAGE | CONCENTRATION_MICROGRAMS_PER_CUBIC_METER

text \<open>The class attributes \<^verbatim>\<open>_attr_name\<close> and \<^verbatim>\<open>_attr_native_unit_of_measurement\<close>.\<close>

fun attr_name :: "sensor_class \<Rightarrow> string" where
  "attr_name Temperature = ''Temperature''"
| "attr_name Humidity = ''Humidity''"
| "attr_name WaterTank = ''Water tank''"
| "attr_name PM25 = ''PM2.5''"
| "attr_name CleanedAirVolume = ''Cleaned air volume''"
| "attr_name OdorLevel = ''Odor level''"
| "attr_name DustLevel = ''Dust level''"
| "attr_name CleanlinessLevel = ''Cleanliness level''"

fun attr_native_unit_of_measurement :: "sensor_class \<Rightarrow> unit_of_measurement option" where
  "attr_native_unit_of_measurement Temperature = Some CELSIUS"
| "attr_native_unit_of_measurement Humidity = Some PERCENTAGE"
| "attr_native_unit_of_measurement PM25 = Some CONCENTRATION_MICROGRAMS_PER_CUBIC_METER"
| "attr_native_unit_of_measurement c = None"

text \<open>
  An entity object: its class and the instance attributes \<^verbatim>\<open>__init__\<close> sets. The seven
  \<^verbatim>\<open>SensorEntity\<close> classes set \<^verbatim>\<open>_attr_native_value\<close>, the \<^verbatim>\<open>BinarySensorEntity\<close>
  class sets \<^verbatim>\<open>_attr_is_on\<close>; \<open>None\<close> in either field says that the instance has no
  such attribute, \<open>Some PyNone\<close> that the attribute holds Python's \<^verbatim>\<open>None\<close>.
\<close>

record entity =
  cls :: sensor_class
  api :: cocoro_air_api
  attr_unique_id :: string
  attr_device_info :: device_info
  attr_native_value :: "pyval option"
  attr_is_on :: "pyval option"

text \<open>The value an entity displays: the on-state of the binary sensor, the native value of the others.\<close>

definition displayed :: "entity \<Rightarrow> pyval option" where
  "displayed e = (if cls e = WaterTank then attr_is_on e else attr_native_value e)"

subsection \<open>Constructors\<close>

definition CocoroAirTemperatureSensor :: "cocoro_air_api \<Rightarrow> entity" where
  "CocoroAirTemperatureSensor a =
     \<lparr>cls = Temperature, api = a,
      attr_unique_id = device_id a @ ''_temperature'',
      attr_device_info = device_info a,
      attr_native_value = Some PyNone, attr_is_on = None\<rparr>"

definition CocoroAirHumiditySensor :: "cocoro_air_api \<Rightarrow> entity" where
  "CocoroAirHumiditySensor a =
     \<lparr>cls = Humidity, api = a,
      attr_unique_id = device_id a @ ''_humidity'',
      attr_device_info = device_info a,
      attr_native_value = Some PyNone, attr_is_on = None\<rparr>"

definition CocoroAirWaterTankSensor :: "cocoro_air_api \<Rightarrow> entity" where
  "CocoroAirWaterTankSensor a =
     \<lparr>cls = WaterTank, api = a,
      attr_unique_id = device_id a @ ''_water_tank'',
      attr_device_info = device_info a,
      attr_native_value = None, attr_is_on = Some PyNone\<rparr>"

definition CocoroAirPM25Sensor :: "cocoro_air_api \<Rightarrow> entity" where
  "CocoroAirPM25Sensor a =
     \<lparr>cls = PM25, api = a,
      attr_unique_id = device_id a @ ''_pm25'',
      attr_device_info = device_info a,
      attr_native_value = Some PyNone, attr_is_on = None\<rparr>"

definition CocoroAirCleanedAirVolumeSensor :: "cocoro_air_api \<Rightarrow> entity" where
  "CocoroAirCleanedAirVolumeSensor a =
     \<lparr>cls = CleanedAirVolume, api = a,
      attr_unique_id = device_id a @ ''_cleaned_air_volume'',
      attr_device_info = device_info a,
      attr_native_value = Some PyNone, attr_is_on = None\<rparr>"

definition CocoroAirOdorLevelSensor :: "cocoro_air_api \<Rightarrow> entity" where
  "CocoroAirOdorLevelSensor a =
     \<lparr>cls = OdorLevel, api = a,
      attr_unique_id = device_id a @ ''_odor_level'',
      attr_device_info = device_info a,
      attr_native_value = Some PyNone, attr_is_on = None\<rparr>"

definition CocoroAirDustLevelSensor :: "cocoro_air_api \<Rightarrow> entity" where
  "CocoroAirDustLevelSensor a =
     \<lparr>cls = DustLevel, api = a,
      attr_unique_id = device_id a @ ''_dust_level'',
      attr_device_info = device_info a,
      attr_native_value = Some PyNone, attr_is_on = None\<rparr>"

definition CocoroAirCleanlinessLevelSensor :: "cocoro_air_api \<Rightarrow> entity" where
  "CocoroAirCleanlinessLevelSensor a =
     \<lparr>cls = CleanlinessLevel, api = a,
      attr_unique_id = device_id a @ ''_cleanliness_level'',
      attr_device_info = device_info a,
      attr_native_value = Some PyNone, attr_is_on = None\<rparr>"

subsection \<open>One refresh cycle\<close>

text \<open>
  The first two statements of every \<^verbatim>\<open>try\<close> block:
  \<^verbatim>\<open>raw_data = await self._api.update()\<close> and
  \<^verbatim>\<open>data = self._api.get_sensor_data(raw_data)\<close>.
\<close>

definition fetch :: "exn + 'raw \<Rightarrow> ('raw \<Rightarrow> exn + snapshot) \<Rightarrow> exn + snapshot" where
  "fetch upd gsd = (case upd of Inl e \<Rightarrow> Inl e | Inr raw_data \<Rightarrow> gsd raw_data)"

text \<open>\<^verbatim>\<open>data[key]\<close> on a dict: a missing key raises \<^verbatim>\<open>KeyError\<close>.\<close>

definition getitem :: "snapshot \<Rightarrow> string \<Rightarrow> exn + pyval" where
  "getitem data k = (case data k of None \<Rightarrow> Inl (KeyError k) | Some v \<Rightarrow> Inr v)"

text \<open>
  What a call of \<^verbatim>\<open>async_update\<close> leaves behind: the exception that reaches the
  caller, if any; the exceptions passed to \<^verbatim>\<open>_LOGGER.warning\<close>; the entity object.
\<close>

record cycle =
  propagated :: "exn option"
  logged :: "exn list"
  self_after :: entity

text \<open>
  \<^verbatim>\<open>try: ... except Exception as e: _LOGGER.warning(..., e)\<close> around a body whose only
  assignment to \<^verbatim>\<open>self\<close> is its last statement: \<open>body\<close> is the exception the body raised
  or the entity after the assignment.
\<close>

definition try_except_Exception :: "exn + entity \<Rightarrow> entity \<Rightarrow> cycle" where
  "try_except_Exception body self =
     (case body of
        Inr self' \<Rightarrow> \<lparr>propagated = None, logged = [], self_after = self'\<rparr>
      | Inl e \<Rightarrow>
          if isinstance_Exception e
          then \<lparr>propagated = None, logged = [e], self_after = self\<rparr>
          else \<lparr>propagated = Some e, logged = [], self_after = self\<rparr>)"

definition CocoroAirTemperatureSensor_async_update ::
  "exn + 'raw \<Rightarrow> ('raw \<Rightarrow> exn + snapshot) \<Rightarrow> entity \<Rightarrow> cycle" where
  "CocoroAirTemperatureSensor_async_update upd gsd self =
     try_except_Exception
       (case fetch upd gsd of
          Inl e \<Rightarrow> Inl e
        | Inr data \<Rightarrow>
            (case getitem data ''temperature'' of
               Inl e \<Rightarrow> Inl e
             | Inr v \<Rightarrow> Inr (self\<lparr>attr_native_value := Some v\<rparr>)))
       self"

definition CocoroAirHumiditySensor_async_update ::
  "exn + 'raw \<Rightarrow> ('raw \<Rightarrow> exn + snapshot) \<Rightarrow> entity \<Rightarrow> cycle" where
  "CocoroAirHumiditySensor_async_update upd gsd self =
     try_except_Exception
       (case fetch upd gsd of
          Inl e \<Rightarrow> Inl e
        | Inr data \<Rightarrow>
            (case getitem data ''humidity'' of
               Inl e \<Rightarrow> Inl e
             | Inr v \<Rightarrow> Inr (self\<lparr>attr_native_value := Some v\<rparr>)))
       self"

definition CocoroAirWaterTankSensor_async_update ::
  "exn + 'raw \<Rightarrow> ('raw \<Rightarrow> exn + snapshot) \<Rightarrow> entity \<Rightarrow> cycle" where
  "CocoroAirWaterTankSensor_async_update upd gsd self =
     try_except_Exception
       (case fetch upd gsd of
          Inl e \<Rightarrow> Inl e
        | Inr data \<Rightarrow>
            (case getitem data ''water_tank'' of
               Inl e \<Rightarrow> Inl e
             | Inr v \<Rightarrow> Inr (self\<lparr>attr_is_on := Some v\<rparr>)))
       self"

definition CocoroAirPM25Sensor_async_update ::
  "exn + 'raw \<Rightarrow> ('raw \<Rightarrow> exn + snapshot) \<Rightarrow> entity \<Rightarrow> cycle" where
  "CocoroAirPM25Sensor_async_update upd gsd self =
     try_except_Exception
       (case fetch upd gsd of
          Inl e \<Rightarrow> Inl e
        | Inr data \<Rightarrow>
            (case getitem data ''pm25'' of
               Inl e \<Rightarrow> Inl e
             | Inr v \<Rightarrow> Inr (self\<lparr>attr_native_value := Some v\<rparr>)))
       self"

definition CocoroAirCleanedAirVolumeSensor_async_update ::
  "exn + 'raw \<Rightarrow> ('raw \<Rightarrow> exn + snapshot) \<Rightarrow> entity \<Rightarrow> cycle" where
  "CocoroAirCleanedAirVolumeSensor_async_update upd gsd self =
     try_except_Exception
       (case fetch upd gsd of
          Inl e \<Rightarrow> Inl e
        | Inr data \<Rightarrow>
            (case getitem data ''cleaned_air_volume'' of
               Inl e \<Rightarrow> Inl e
             | Inr v \<Rightarrow> Inr (self\<lparr>attr_native_value := Some v\<rparr>)))
       self"

definition CocoroAirOdorLevelSensor_async_update ::
  "exn + 'raw \<Rightarrow> ('raw \<Rightarrow> exn + snapshot) \<Rightarrow> entity \<Rightarrow> cycle" where
  "CocoroAirOdorLevelSensor_async_update upd gsd self =
     try_except_Exception
       (case fetch upd gsd of
          Inl e \<Rightarrow> Inl e
        | Inr data \<Rightarrow>
            (case getitem data ''odor_level'' of
               Inl e \<Rightarrow> Inl e
             | Inr raw_value \<Rightarrow>
                 if raw_value \<noteq> PyNone
                 then (case round_div raw_value 33 of
                         Inl e \<Rightarrow> Inl e
                       | Inr v \<Rightarrow> Inr (self\<lparr>attr_native_value := Some v\<rparr>))
                 else Inr (self\<lparr>attr_native_value := Some PyNone\<rparr>)))
       self"

definition CocoroAirDustLevelSensor_async_update ::
  "exn + 'raw \<Rightarrow> ('raw \<Rightarrow> exn + snapshot) \<Rightarrow> entity \<Rightarrow> cycle" where
  "CocoroAirDustLevelSensor_async_update upd gsd self =
     try_except_Exception
       (case fetch upd gsd of
          Inl e \<Rightarrow> Inl e
        | Inr data \<Rightarrow>
            (case getitem data ''dust_level'' of
               Inl e \<Rightarrow> Inl e
             | Inr raw_value \<Rightarrow>
                 if raw_value \<noteq> PyNone
                 then (case round_div raw_value 25 of
                         Inl e \<Rightarrow> Inl e
                       | Inr v \<Rightarrow> Inr (self\<lparr>attr_native_value := Some v\<rparr>))
                 else Inr (self\<lparr>attr_native_value := Some PyNone\<rparr>)))
       self"

definition CocoroAirCleanlinessLevelSensor_async_update ::
  "exn + 'raw \<Rightarrow> ('raw \<Rightarrow> exn + snapshot) \<Rightarrow> entity \<Rightarrow> cycle" where
  "CocoroAirCleanlinessLevelSensor_async_update upd gsd self =
     try_except_Exception
       (case fetch upd gsd of
          Inl e \<Rightarrow> Inl e
        | Inr data \<Rightarrow>
            (case getitem data ''cleanliness_level'' of
               Inl e \<Rightarrow> Inl e
             | Inr raw_value \<Rightarrow>
                 if raw_value \<noteq> PyNone
                 then (case round_div raw_value 25 of
                         Inl e \<Rightarrow> Inl e
                       | Inr v \<Rightarrow> Inr (self\<lparr>attr_native_value := Some v\<rparr>))
                 else Inr (self\<lparr>attr_native_value := Some PyNone\<rparr>)))
       self"

text \<open>Method dispatch: \<^verbatim>\<open>entity.async_update()\<close> runs the method of the entity's class.\<close>

definition async_update ::
  "exn + 'raw \<Rightarrow> ('raw \<Rightarrow> exn + snapshot) \<Rightarrow> entity \<Rightarrow> cycle" where
  "async_update upd gsd self =
     (case cls self of
        Temperature \<Rightarrow> CocoroAirTemperatureSensor_async_update upd gsd self
      | Humidity \<Rightarrow> CocoroAirHumiditySensor_async_update upd gsd self
      | WaterTank \<Rightarrow> CocoroAirWaterTankSensor_async_update upd gsd self
      | PM25 \<Rightarrow> CocoroAirPM25Sensor_async_update upd gsd self
      | CleanedAirVolume \<Rightarrow> CocoroAirCleanedAirVolumeSensor_async_update upd gsd self
      | OdorLevel \<Rightarrow> CocoroAirOdorLevelSensor_async_update upd gsd self
      | DustLevel \<Rightarrow> CocoroAirDustLevelSensor_async_update upd gsd self
      | CleanlinessLevel \<Rightarrow> CocoroAirCleanlinessLevelSensor_async_update upd gsd self)"

text \<open>
  The host holds the registered entity objects and calls \<^verbatim>\<open>async_update\<close> on one of
  them: the objects are the positions of a list, \<open>i\<close> the object the method is called on.
  Only that object is written back. A position outside the list is no object, and no call
  takes place.
\<close>

definition call_async_update ::
  "nat \<Rightarrow> exn + 'raw \<Rightarrow> ('raw \<Rightarrow> exn + snapshot) \<Rightarrow> entity list
     \<Rightarrow> exn option \<times> exn list \<times> entity list" where
  "call_async_update i upd gsd objs =
     (if i < length objs
      then let c = async_update upd gsd (objs ! i)
           in (propagated c, logged c, objs[i := self_after c])
      else (None, [], objs))"

section \<open>Platform setup\<close>

text \<open>
  \<^verbatim>\<open>hass.data[DOMAIN][entry.entry_id]["cocoro_air_api"]\<close> is three dict lookups, each
  raising \<^verbatim>\<open>KeyError\<close> on a missing key. \<^verbatim>\<open>DOMAIN\<close> is imported from the package and
  is a parameter here; \<^verbatim>\<open>async_add_entities\<close> is the host's callback.
\<close>

record HomeAssistant =
  data :: "string \<rightharpoonup> (string \<rightharpoonup> (string \<rightharpoonup> cocoro_air_api))"

record ConfigEntry =
  entry_id :: string

definition async_setup_entry ::
  "string \<Rightarrow> HomeAssistant \<Rightarrow> ConfigEntry \<Rightarrow> (entity list \<Rightarrow> 'r) \<Rightarrow> exn + 'r" where
  "async_setup_entry DOMAIN hass entry async_add_entities =
     (case data hass DOMAIN of
        None \<Rightarrow> Inl (KeyError DOMAIN)
      | Some by_entry \<Rightarrow>
          (case by_entry (entry_id entry) of
             None \<Rightarrow> Inl (KeyError (entry_id entry))
           | Some slots \<Rightarrow>
               (case slots ''cocoro_air_api'' of
                  None \<Rightarrow> Inl (KeyError ''cocoro_air_api'')
                | Some cocoro_air_api \<Rightarrow>
                    Inr (async_add_entities
                      [CocoroAirTemperatureSensor cocoro_air_api,
                       CocoroAirHumiditySensor cocoro_air_api,
                       CocoroAirWaterTankSensor cocoro_air_api,
                       CocoroAirPM25Sensor cocoro_air_api,
                       CocoroAirCleanedAirVolumeSensor cocoro_air_api,
                       CocoroAirOdorLevelSensor cocoro_air_api,
                       CocoroAirDustLevelSensor cocoro_air_api,
                       CocoroAirCleanlinessLevelSensor cocoro_air_api]))))"

subsection \<open>The eight methods in one equation\<close>

text \<open>
  The eight \<^verbatim>\<open>async_update\<close> methods differ in the key they read, in the attribute they
  write and in the scaling. \<open>assigned c snap\<close> is the right-hand side of the assignment
  in the \<^verbatim>\<open>try\<close> block of class \<open>c\<close> for the dict \<open>snap\<close> (or the exception raised
  before the assignment), \<open>assign self v\<close> the assignment itself. Lemma
  \<open>async_update_eq\<close> below shows that the methods, as written above, compute this;
  the two definitions serve the proofs only.
\<close>

definition assigned :: "sensor_class \<Rightarrow> snapshot \<Rightarrow> exn + pyval" where
  "assigned c snap =
     (case c of
        Temperature \<Rightarrow> getitem snap ''temperature''
      | Humidity \<Rightarrow> getitem snap ''humidity''
      | WaterTank \<Rightarrow> getitem snap ''water_tank''
      | PM25 \<Rightarrow> getitem snap ''pm25''
      | CleanedAirVolume \<Rightarrow> getitem snap ''cleaned_air_volume''
      | OdorLevel \<Rightarrow>
          (case getitem snap ''odor_level'' of Inl e \<Rightarrow> Inl e
           | Inr raw_value \<Rightarrow> if raw_value \<noteq> PyNone then round_div raw_value 33 else Inr PyNone)
      | DustLevel \<Rightarrow>
          (case getitem snap ''dust_level'' of Inl e \<Rightarrow> Inl e
           | Inr raw_value \<Rightarrow> if raw_value \<noteq> PyNone then round_div raw_value 25 else Inr PyNone)
      | CleanlinessLevel \<Rightarrow>
          (case getitem snap ''cleanliness_level'' of Inl e \<Rightarrow> Inl e
           | Inr raw_value \<Rightarrow> if raw_value \<noteq> PyNone then round_div raw_value 25 else Inr PyNone))"

definition assign :: "entity \<Rightarrow> pyval \<Rightarrow> entity" where
  "assign self v =
     (if cls self = WaterTank then self\<lparr>attr_is_on := Some v\<rparr>
      else self\<lparr>attr_native_value := Some v\<rparr>)"

section \<open>Auxiliary facts\<close>

lemmas ctor_defs =
  CocoroAirTemperatureSensor_def CocoroAirHumiditySensor_def
  CocoroAirWaterTankSensor_def CocoroAirPM25Sensor_def
  CocoroAirCleanedAirVolumeSensor_def CocoroAirOdorLevelSensor_def
  CocoroAirDustLevelSensor_def CocoroAirCleanlinessLevelSensor_def

lemmas method_defs =
  CocoroAirTemperatureSensor_async_update_def CocoroAirHumiditySensor_async_update_def
  CocoroAirWaterTankSensor_async_update_def CocoroAirPM25Sensor_async_update_def
  CocoroAirCleanedAirVolumeSensor_async_update_def CocoroAirOdorLevelSensor_async_update_def
  CocoroAirDustLevelSensor_async_update_def CocoroAirCleanlinessLevelSensor_async_update_def

text \<open>The entities a successful setup hands to the callback.\<close>

lemma setup_entities:
  assumes "async_setup_entry DOMAIN hass entry (\<lambda>es. es) = Inr es"
  shows "\<exists>a. es =
          [CocoroAirTemperatureSensor a, CocoroAirHumiditySensor a,
           CocoroAirWaterTankSensor a, CocoroAirPM25Sensor a,
           CocoroAirCleanedAirVolumeSensor a, CocoroAirOdorLevelSensor a,
           CocoroAirDustLevelSensor a, CocoroAirCleanlinessLevelSensor a]"
  using assms by (auto simp: async_setup_entry_def split: option.splits)

text \<open>A fetch that raises: every class ends in the handler with the same exception.\<close>

lemma fetch_raises_iff:
  "fetch upd gsd = Inl x \<longleftrightarrow>
     upd = Inl x \<or> (\<exists>raw_data. upd = Inr raw_data \<and> gsd raw_data = Inl x)"
  by (cases upd) (simp_all add: fetch_def)

lemma async_update_fetch_raises:
  "fetch upd gsd = Inl x \<Longrightarrow> async_update upd gsd self = try_except_Exception (Inl x) self"
  by (simp add: async_update_def method_defs split: sensor_class.splits)

text \<open>A fetch that returns a dict: what each class does with it.\<close>

lemma async_update_passthrough:
  assumes "fetch upd gsd = Inr snap"
  shows "cls self = Temperature \<Longrightarrow> async_update upd gsd self =
           try_except_Exception (case getitem snap ''temperature'' of Inl e \<Rightarrow> Inl e
              | Inr v \<Rightarrow> Inr (self\<lparr>attr_native_value := Some v\<rparr>)) self"
    and "cls self = Humidity \<Longrightarrow> async_update upd gsd self =
           try_except_Exception (case getitem snap ''humidity'' of Inl e \<Rightarrow> Inl e
              | Inr v \<Rightarrow> Inr (self\<lparr>attr_native_value := Some v\<rparr>)) self"
    and "cls self = WaterTank \<Longrightarrow> async_update upd gsd self =
           try_except_Exception (case getitem snap ''water_tank'' of Inl e \<Rightarrow> Inl e
              | Inr v \<Rightarrow> Inr (self\<lparr>attr_is_on := Some v\<rparr>)) self"
    and "cls self = PM25 \<Longrightarrow> async_update upd gsd self =
           try_except_Exception (case getitem snap ''pm25'' of Inl e \<Rightarrow> Inl e
              | Inr v \<Rightarrow> Inr (self\<lparr>attr_native_value := Some v\<rparr>)) self"
    and "cls self = CleanedAirVolume \<Longrightarrow> async_update upd gsd self =
           try_except_Exception (case getitem snap ''cleaned_air_volume'' of Inl e \<Rightarrow> Inl e
              | Inr v \<Rightarrow> Inr (self\<lparr>attr_native_value := Some v\<rparr>)) self"
  using assms by (simp_all add: async_update_def method_defs)

lemma async_update_scaled:
  assumes "fetch upd gsd = Inr snap"
  shows "cls self = OdorLevel \<Longrightarrow> async_update upd gsd self =
           try_except_Exception (case getitem snap ''odor_level'' of Inl e \<Rightarrow> Inl e
              | Inr raw_value \<Rightarrow> if raw_value \<noteq> PyNone
                  then (case round_div raw_value 33 of Inl e \<Rightarrow> Inl e
                        | Inr v \<Rightarrow> Inr (self\<lparr>attr_native_value := Some v\<rparr>))
                  else Inr (self\<lparr>attr_native_value := Some PyNone\<rparr>)) self"
    and "cls self = DustLevel \<Longrightarrow> async_update upd gsd self =
           try_except_Exception (case getitem snap ''dust_level'' of Inl e \<Rightarrow> Inl e
              | Inr raw_value \<Rightarrow> if raw_value \<noteq> PyNone
                  then (case round_div raw_value 25 of Inl e \<Rightarrow> Inl e
                        | Inr v \<Rightarrow> Inr (self\<lparr>attr_native_value := Some v\<rparr>))
                  else Inr (self\<lparr>attr_native_value := Some PyNone\<rparr>)) self"
    and "cls self = CleanlinessLevel \<Longrightarrow> async_update upd gsd self =
           try_except_Exception (case getitem snap ''cleanliness_level'' of Inl e \<Rightarrow> Inl e
              | Inr raw_value \<Rightarrow> if raw_value \<noteq> PyNone
                  then (case round_div raw_value 25 of Inl e \<Rightarrow> Inl e
                        | Inr v \<Rightarrow> Inr (self\<lparr>attr_native_value := Some v\<rparr>))
                  else Inr (self\<lparr>attr_native_value := Some PyNone\<rparr>)) self"
  using assms by (simp_all add: async_update_def method_defs)

text \<open>No method writes an attribute other than the one its class displays.\<close>

lemma async_update_frame:
  "cls (self_after (async_update upd gsd self)) = cls self \<and>
   api (self_after (async_update upd gsd self)) = api self \<and>
   attr_unique_id (self_after (async_update upd gsd self)) = attr_unique_id self \<and>
   attr_device_info (self_after (async_update upd gsd self)) = attr_device_info self \<and>
   (cls self = WaterTank \<longrightarrow>
      attr_native_value (self_after (async_update upd gsd self)) = attr_native_value self) \<and>
   (cls self \<noteq> WaterTank \<longrightarrow>
      attr_is_on (self_after (async_update upd gsd self)) = attr_is_on self)"
proof (cases "fetch upd gsd")
  case (Inl x)
  then show ?thesis
    by (simp add: async_update_fetch_raises try_except_Exception_def)
next
  case (Inr snap)
  show ?thesis
    by (cases "cls self")
      (simp_all add: async_update_passthrough [OF Inr] async_update_scaled [OF Inr]
         try_except_Exception_def split: sum.splits)
qed

text \<open>The methods against the single equation.\<close>

lemma async_update_eq:
  assumes "fetch upd gsd = Inr snap"
  shows "async_update upd gsd self =
           try_except_Exception
             (case assigned (cls self) snap of Inl e \<Rightarrow> Inl e | Inr v \<Rightarrow> Inr (assign self v)) self"
  by (cases "cls self")
    (simp_all add: async_update_passthrough [OF assms] async_update_scaled [OF assms]
       assigned_def assign_def split: sum.splits)

lemma cls_assign [simp]: "cls (assign self v) = cls self"
  by (simp add: assign_def)

lemma assign_assign [simp]: "assign (assign self v) w = assign self w"
  by (simp add: assign_def)

lemma displayed_assign [simp]: "displayed (assign self v) = Some v"
  by (simp add: assign_def displayed_def)

text \<open>The scaling on the inputs the specification names, and what a successful scaling is.\<close>

lemma round_div_99: "round_div (PyInt 99) 33 = Inr (PyInt 3)"
  by code_simp

lemma round_div_12: "round_div (PyInt 12) 25 = Inr (PyInt 0)"
  by code_simp

lemma round_div_Inr:
  "round_div raw d = Inr v \<longleftrightarrow>
     (\<exists>q n. py_truediv raw d = Inr q \<and> py_round q = Inr n \<and> v = PyInt n)"
  by (auto simp: round_div_def split: sum.splits)

lemma assigned_displays:
  assumes "fetch upd gsd = Inr snap" and "assigned (cls self) snap = Inr v"
  shows "displayed (self_after (async_update upd gsd self)) = Some v \<and>
         propagated (async_update upd gsd self) = None \<and>
         logged (async_update upd gsd self) = []"
  using assms(2) by (simp add: async_update_eq [OF assms(1)] try_except_Exception_def)

text \<open>A scaled class succeeds exactly when the division and the rounding do.\<close>

lemma round_div_succeeds:
  assumes "fetch upd gsd = Inr snap" and "assigned (cls self) snap = round_div raw d"
  shows "((propagated (async_update upd gsd self) = None \<and>
           logged (async_update upd gsd self) = [])
            = (\<exists>q n. py_truediv raw d = Inr q \<and> py_round q = Inr n)) \<and>
         (\<forall>q n. py_truediv raw d = Inr q \<and> py_round q = Inr n \<longrightarrow>
            displayed (self_after (async_update upd gsd self)) = Some (PyInt n))"
proof (cases "round_div raw d")
  case (Inl e)
  then have "\<not> (\<exists>q n. py_truediv raw d = Inr q \<and> py_round q = Inr n)"
    using round_div_Inr [of raw d] by auto
  with Inl assms(2) show ?thesis
    by (auto simp: async_update_eq [OF assms(1)] try_except_Exception_def)
next
  case (Inr v)
  then obtain q n where qn: "py_truediv raw d = Inr q" "py_round q = Inr n" "v = PyInt n"
    by (auto simp: round_div_Inr)
  with Inr assms(2) show ?thesis
    by (auto simp: async_update_eq [OF assms(1)] try_except_Exception_def)
qed

text \<open>Halves: the inputs of the specification, and the tie rule.\<close>

lemma round_div_12_5: "round_div (PyFloat (Fin (25 / 2))) 25 = Inr (PyInt 0)"
  by code_simp

lemma round_div_37_5: "round_div (PyFloat (Fin (75 / 2))) 25 = Inr (PyInt 2)"
  by code_simp

lemma truediv_37_5: "py_truediv (PyFloat (Fin (75 / 2))) 25 = Inr (Fin (of_int 1 + 1 / 2))"
  by code_simp

lemma round_half_even_half:
  "round_half_even (of_int k + 1 / 2) = (if even k then k else k + 1)"
proof -
  have "\<lfloor>of_int k + (1 / 2 :: rat)\<rfloor> = k"
    by (simp add: floor_unique)
  then show ?thesis
    by (simp add: round_half_even_def Let_def)
qed

text \<open>A failing registry lookup is not handled: the \<^verbatim>\<open>KeyError\<close> leaves the setup routine.\<close>

lemma setup_lookup_fails:
  "data hass DOMAIN = None \<Longrightarrow>
     async_setup_entry DOMAIN hass entry async_add_entities = Inl (KeyError DOMAIN)"
  "data hass DOMAIN = Some by_entry \<Longrightarrow> by_entry (entry_id entry) = None \<Longrightarrow>
     async_setup_entry DOMAIN hass entry async_add_entities = Inl (KeyError (entry_id entry))"
  "data hass DOMAIN = Some by_entry \<Longrightarrow> by_entry (entry_id entry) = Some slots \<Longrightarrow>
     slots ''cocoro_air_api'' = None \<Longrightarrow>
     async_setup_entry DOMAIN hass entry async_add_entities = Inl (KeyError ''cocoro_air_api'')"
  by (simp_all add: async_setup_entry_def)

subsection \<open>Rounding to binary64\<close>

text \<open>
  \<open>pow2\<close> is the integer power of two, \<open>bit_length\<close> and \<open>exponent\<close> bracket their
  argument between two powers of two, rounding to an integer errs by a half at most, and
  \<open>round_to_double\<close> is exact on the numbers binary64 holds and errs by half a unit in
  the last place otherwise.
\<close>

lemma pow2_powi: "pow2 k = 2 powi k"
  unfolding pow2_def power_int_def by (simp add: inverse_eq_divide power_one_over)

lemma pow2_pos: "0 < pow2 k"
  by (simp add: pow2_def)

lemma pow2_add: "pow2 (i + j) = pow2 i * pow2 j"
  by (simp add: pow2_powi power_int_add)

lemma pow2_diff: "pow2 (i - j) = pow2 i / pow2 j"
  by (simp add: pow2_powi power_int_diff)

lemma pow2_less: "i < j \<Longrightarrow> pow2 i < pow2 j"
  unfolding pow2_powi by (rule power_int_strict_increasing) simp_all

lemma pow2_less_iff: "pow2 i < pow2 j \<longleftrightarrow> i < j"
  using pow2_less [of i j] pow2_less [of j i] by (cases i j rule: linorder_cases) auto

lemma pow2_le_iff: "pow2 i \<le> pow2 j \<longleftrightarrow> i \<le> j"
  using pow2_less_iff [of j i] by (simp add: not_less [symmetric])

lemma pow2_nat: "pow2 (int n) = 2 ^ n"
  by (simp add: pow2_def)

lemma bit_length_bounds:
  "0 < n \<Longrightarrow> 0 < bit_length n \<and> 2 ^ nat (bit_length n - 1) \<le> n \<and> n < 2 ^ nat (bit_length n)"
proof (induction n rule: bit_length.induct)
  case (1 n)
  show ?case
  proof (cases "n = 1")
    case True
    have "bit_length 1 = 1"
      by (simp add: bit_length.simps [of 1] bit_length.simps [of 0])
    with True show ?thesis by simp
  next
    case False
    with "1.prems" have pos: "0 < n div 2" by simp
    from "1.IH" [OF _ pos] "1.prems"
    have ih: "0 < bit_length (n div 2)"
      "2 ^ nat (bit_length (n div 2) - 1) \<le> n div 2"
      "n div 2 < 2 ^ nat (bit_length (n div 2))"
      by simp_all
    have bl: "bit_length n = 1 + bit_length (n div 2)"
      using "1.prems" by (simp add: bit_length.simps [of n])
    obtain m where m: "nat (bit_length (n div 2)) = Suc m"
      using ih(1) by (cases "nat (bit_length (n div 2))") simp_all
    then have m': "nat (bit_length (n div 2) - 1) = m"
      by simp
    have "nat (bit_length n - 1) = Suc m" "nat (bit_length n) = Suc (Suc m)"
      using m ih(1) unfolding bl by simp_all
    with ih(2,3) show ?thesis
      unfolding m m' using ih(1) bl by simp linarith
  qed
qed

lemma of_int_less_pow2: "n < 2 ^ nat k \<Longrightarrow> 0 \<le> k \<Longrightarrow> of_int n < pow2 k"
proof -
  assume "n < 2 ^ nat k" "0 \<le> k"
  then have "(of_int n :: rat) < of_int (2 ^ nat k)"
    by (simp only: of_int_less_iff)
  with \<open>0 \<le> k\<close> show ?thesis
    by (simp add: pow2_def)
qed

lemma pow2_le_of_int: "2 ^ nat k \<le> n \<Longrightarrow> 0 \<le> k \<Longrightarrow> pow2 k \<le> of_int n"
proof -
  assume "2 ^ nat k \<le> n" "0 \<le> k"
  then have "(of_int (2 ^ nat k) :: rat) \<le> of_int n"
    by (simp only: of_int_le_iff)
  with \<open>0 \<le> k\<close> show ?thesis
    by (simp add: pow2_def)
qed

lemma exponent_bounds:
  assumes "q \<noteq> 0"
  shows "pow2 (exponent q) \<le> \<bar>q\<bar> \<and> \<bar>q\<bar> < pow2 (exponent q + 1)"
proof -
  obtain a b where ab: "quotient_of \<bar>q\<bar> = (a, b)"
    by (cases "quotient_of \<bar>q\<bar>")
  have b: "0 < b"
    using ab by (rule quotient_of_denom_pos)
  have q: "\<bar>q\<bar> = of_int a / of_int b"
    using ab by (rule quotient_of_div)
  have a: "0 < a"
  proof -
    from assms have "0 < \<bar>q\<bar>" by simp
    with q b show ?thesis by (simp add: zero_less_divide_iff)
  qed
  let ?la = "bit_length a" and ?lb = "bit_length b"
  from bit_length_bounds [OF a] bit_length_bounds [OF b]
  have la: "0 < ?la" "2 ^ nat (?la - 1) \<le> a" "a < 2 ^ nat ?la"
    and lb: "0 < ?lb" "2 ^ nat (?lb - 1) \<le> b" "b < 2 ^ nat ?lb"
    by simp_all
  have a_up: "of_int a < pow2 ?la" using la by (intro of_int_less_pow2) simp_all
  have a_lo: "pow2 (?la - 1) \<le> of_int a" using la by (intro pow2_le_of_int) simp_all
  have b_up: "of_int b < pow2 ?lb" using lb by (intro of_int_less_pow2) simp_all
  have b_lo: "pow2 (?lb - 1) \<le> of_int b" using lb by (intro pow2_le_of_int) simp_all
  have upper: "\<bar>q\<bar> < pow2 (?la - ?lb + 1)"
  proof -
    have "of_int a / of_int b < pow2 ?la / pow2 (?lb - 1)"
      using a a_up b_lo pow2_pos [of "?lb - 1"] by (intro frac_less) simp_all
    also have "\<dots> = pow2 (?la - ?lb + 1)"
      by (simp add: pow2_diff [symmetric] algebra_simps)
    finally show ?thesis by (simp add: q)
  qed
  have lower: "pow2 (?la - ?lb - 1) < \<bar>q\<bar>"
  proof -
    have "pow2 (?la - 1) / pow2 ?lb < of_int a / of_int b"
      using b a_lo b_up pow2_pos [of "?la - 1"] by (intro frac_less2) simp_all
    moreover have "pow2 (?la - 1) / pow2 ?lb = pow2 (?la - ?lb - 1)"
      by (simp add: pow2_diff [symmetric] algebra_simps)
    ultimately show ?thesis by (simp add: q)
  qed
  have e: "exponent q = (if pow2 (?la - ?lb) \<le> \<bar>q\<bar> then ?la - ?lb else ?la - ?lb - 1)"
    by (simp add: exponent_def ab Let_def)
  show ?thesis
  proof (cases "pow2 (?la - ?lb) \<le> \<bar>q\<bar>")
    case True
    with upper show ?thesis by (simp add: e)
  next
    case False
    with lower show ?thesis by (simp add: e)
  qed
qed

lemma exponent_less: "q \<noteq> 0 \<Longrightarrow> \<bar>q\<bar> < pow2 n \<Longrightarrow> exponent q < n"
  using exponent_bounds [of q] pow2_less_iff [of "exponent q" n] by simp

lemma exponent_ge: "q \<noteq> 0 \<Longrightarrow> pow2 n \<le> \<bar>q\<bar> \<Longrightarrow> n \<le> exponent q"
  using exponent_bounds [of q] pow2_less_iff [of n "exponent q + 1"] by simp

lemma round_half_even_of_int: "round_half_even (of_int m) = m"
  by (simp add: round_half_even_def)

lemma round_half_even_error: "\<bar>of_int (round_half_even x) - x\<bar> \<le> 1 / 2"
proof -
  have "of_int \<lfloor>x\<rfloor> \<le> x" "x < of_int \<lfloor>x\<rfloor> + 1"
    by linarith+
  then show ?thesis
    by (auto simp: round_half_even_def Let_def)
qed

lemma round_half_even_between:
  assumes "of_int m - 1 / 2 < x" and "x < of_int m + 1 / 2"
  shows "round_half_even x = m"
proof -
  have "of_int (m - 1) \<le> x" "x < of_int (m + 1)"
    using assms by simp_all
  then have "m - 1 \<le> \<lfloor>x\<rfloor>" "\<lfloor>x\<rfloor> < m + 1"
    by (simp_all only: le_floor_iff floor_less_iff)
  then have "\<lfloor>x\<rfloor> = m \<or> \<lfloor>x\<rfloor> = m - 1"
    by linarith
  then show ?thesis
  proof
    assume "\<lfloor>x\<rfloor> = m"
    moreover have "x - of_int m < 1 / 2" using assms by simp
    ultimately show ?thesis by (simp add: round_half_even_def)
  next
    assume f: "\<lfloor>x\<rfloor> = m - 1"
    have "1 / 2 < x - of_int (m - 1)" using assms by simp
    with f show ?thesis by (simp add: round_half_even_def)
  qed
qed

lemma round_to_double_exact:
  assumes "q = of_int m * pow2 j" and "q \<noteq> 0" and "exponent q - 52 \<le> j" and "- 1074 \<le> j"
  shows "round_to_double q = q"
proof -
  define u where "u = max (exponent q) (- 1022) - 52"
  have u: "u \<le> j"
    using assms(3,4) by (simp add: u_def)
  have "q / pow2 u = of_int m * pow2 (j - u)"
    by (simp add: assms(1) pow2_diff)
  also have "pow2 (j - u) = of_int (2 ^ nat (j - u))"
    using u by (simp add: pow2_def)
  finally have "q / pow2 u = of_int (m * 2 ^ nat (j - u))"
    by simp
  then have "round_half_even (q / pow2 u) = m * 2 ^ nat (j - u)"
    by (simp only: round_half_even_of_int)
  with \<open>q / pow2 u = of_int (m * 2 ^ nat (j - u))\<close>
  have "of_int (round_half_even (q / pow2 u)) = q / pow2 u"
    by simp
  moreover have "pow2 u \<noteq> 0"
    using pow2_pos [of u] by simp
  ultimately show ?thesis
    using assms(2) by (simp add: round_to_double_def Let_def u_def [symmetric])
qed

lemma round_to_double_error:
  assumes "q \<noteq> 0" and "- 1022 \<le> exponent q"
  shows "\<bar>round_to_double q - q\<bar> \<le> pow2 (exponent q - 53)"
proof -
  define u where "u = exponent q - 52"
  have pos: "0 < pow2 u"
    by (rule pow2_pos)
  have r: "round_to_double q = of_int (round_half_even (q / pow2 u)) * pow2 u"
    using assms by (simp add: round_to_double_def Let_def u_def max_def)
  have "round_to_double q - q = (of_int (round_half_even (q / pow2 u)) - q / pow2 u) * pow2 u"
    using pos by (simp add: r algebra_simps)
  then have "\<bar>round_to_double q - q\<bar>
      = \<bar>of_int (round_half_even (q / pow2 u)) - q / pow2 u\<bar> * pow2 u"
    using pos by (simp add: abs_mult)
  also have "\<dots> \<le> 1 / 2 * pow2 u"
    using pos round_half_even_error [of "q / pow2 u"] by (intro mult_right_mono) simp_all
  also have "\<dots> = pow2 (u - 1)"
  proof -
    have "pow2 1 = 2"
      by (simp add: pow2_def)
    then show ?thesis
      by (simp add: pow2_diff)
  qed
  finally show ?thesis
    by (simp add: u_def)
qed

lemma round_to_double_half:
  assumes "\<bar>2 * k + 1\<bar> < 2 ^ 53"
  shows "round_to_double (of_int k + 1 / 2) = of_int k + 1 / 2"
    and "\<not> too_large (of_int k + 1 / 2)"
proof -
  define q :: rat where "q = of_int k + 1 / 2"
  have q: "q = of_int (2 * k + 1) * pow2 (- 1)"
    by (simp add: q_def pow2_def field_simps)
  have nz: "q \<noteq> 0"
  proof
    assume "q = 0"
    then have "(of_int (2 * k + 1) :: rat) = 0"
      using pow2_pos [of "- 1"] by (simp add: q)
    then have "2 * k + 1 = 0"
      by (simp only: of_int_eq_0_iff)
    then show False
      by presburger
  qed
  have "\<bar>q\<bar> = \<bar>of_int (2 * k + 1)\<bar> / 2"
    by (simp add: q pow2_def abs_mult)
  also have "\<dots> = of_int \<bar>2 * k + 1\<bar> / 2"
    by simp
  also have "\<dots> < of_int (2 ^ 53) / 2"
  proof -
    from assms have "(of_int \<bar>2 * k + 1\<bar> :: rat) < of_int (2 ^ 53)"
      by (simp only: of_int_less_iff)
    then show ?thesis
      by (rule divide_strict_right_mono) simp
  qed
  also have "\<dots> = pow2 52"
    by (simp add: pow2_def)
  finally have "\<bar>q\<bar> < pow2 52" .
  then have e: "exponent q < 52"
    using nz by (intro exponent_less)
  then show "round_to_double (of_int k + 1 / 2) = of_int k + 1 / 2"
    using round_to_double_exact [OF q nz] by (simp add: q_def)
  from e show "\<not> too_large (of_int k + 1 / 2)"
    by (simp add: too_large_def q_def)
qed

lemma round_to_double_of_int:
  assumes "\<bar>m\<bar> < 2 ^ 53"
  shows "round_to_double (of_int m) = of_int m" and "\<not> too_large (of_int m)"
proof -
  have "round_to_double (of_int m) = of_int m \<and> \<not> too_large (of_int m)"
  proof (cases "m = 0")
    case True
    then show ?thesis
      by (simp add: round_to_double_def too_large_def)
  next
    case False
    then have nz: "(of_int m :: rat) \<noteq> 0"
      by simp
    have "(of_int \<bar>m\<bar> :: rat) < of_int (2 ^ 53)"
      using assms by (simp only: of_int_less_iff)
    then have "\<bar>of_int m :: rat\<bar> < pow2 53"
      by (simp add: pow2_def)
    then have e: "exponent (of_int m) < 53"
      using nz by (intro exponent_less)
    have "(of_int m :: rat) = of_int m * pow2 0"
      by (simp add: pow2_def)
    from round_to_double_exact [OF this nz] e show ?thesis
      by (simp add: too_large_def)
  qed
  then show "round_to_double (of_int m) = of_int m" and "\<not> too_large (of_int m)"
    by simp_all
qed

lemma float_truediv_half:
  assumes "\<bar>d\<bar> < 2 ^ 53" and "d \<noteq> 0"
    and "x / of_int d = of_int k + 1 / 2" and "\<bar>2 * k + 1\<bar> < 2 ^ 53"
  shows "float_truediv (Fin x) d = Inr (Fin (of_int k + 1 / 2))"
  using assms(2,3) round_to_double_of_int [OF assms(1)] round_to_double_half [OF assms(4)]
  by (simp add: float_truediv_def Let_def)

lemma int_truediv_nearest:
  assumes "odd d" and "0 < d" and "d < 64" and "\<bar>n\<bar> < 2 ^ 47"
  shows "\<exists>r. int_truediv n d = Inr (Fin r) \<and> round_half_even r = (2 * n + d) div (2 * d)"
proof (cases "n = 0")
  case True
  with assms(2) show ?thesis
    by (simp add: int_truediv_def round_to_double_def too_large_def round_half_even_def)
next
  case False
  define q :: rat where "q = of_int n / of_int d"
  define r where "r = round_to_double q"
  define m where "m = (2 * n + d) div (2 * d)"
  define t where "t = (2 * n + d) mod (2 * d)"
  have d: "(0::rat) < of_int d" "(of_int d :: rat) < 64"
    using assms(2,3) by simp_all
  have nz: "q \<noteq> 0"
    using False assms(2) by (simp add: q_def)
  have abs_q: "\<bar>q\<bar> = of_int \<bar>n\<bar> / of_int d"
    using assms(2) by (simp add: q_def)
  have "pow2 (- 6) \<le> \<bar>q\<bar>"
  proof -
    have "1 \<le> \<bar>n\<bar>"
      using False by simp
    then have "(1::rat) \<le> of_int \<bar>n\<bar>"
      by simp
    then have "(1::rat) / 64 \<le> of_int \<bar>n\<bar> / of_int d"
      using d by (intro frac_le) simp_all
    then show ?thesis
      by (simp add: abs_q pow2_def)
  qed
  then have e_lo: "- 6 \<le> exponent q"
    using nz by (intro exponent_ge)
  have q_up: "\<bar>q\<bar> < pow2 47"
  proof -
    have "1 \<le> d"
      using assms(2) by simp
    then have "(1::rat) \<le> of_int d"
      by simp
    then have "of_int \<bar>n\<bar> / of_int d \<le> (of_int \<bar>n\<bar> :: rat) / 1"
      by (intro divide_left_mono) simp_all
    moreover have "(of_int \<bar>n\<bar> :: rat) < of_int (2 ^ 47)"
      using assms(4) by (simp only: of_int_less_iff)
    ultimately show ?thesis
      by (simp add: abs_q pow2_def)
  qed
  then have e_up: "exponent q < 47"
    using nz by (intro exponent_less)
  have "\<bar>r - q\<bar> \<le> pow2 (exponent q - 53)"
    unfolding r_def using nz e_lo by (intro round_to_double_error) simp_all
  also have "\<dots> \<le> pow2 (- 7)"
    using e_up by (simp add: pow2_le_iff)
  also have "\<dots> = 1 / 128"
    by (simp add: pow2_def)
  finally have err: "\<bar>r - q\<bar> \<le> 1 / 128" .
  have not_large: "\<not> too_large r"
  proof (cases "r = 0")
    case True
    then show ?thesis by (simp add: too_large_def)
  next
    case nzr: False
    have "\<bar>r\<bar> \<le> \<bar>q\<bar> + 1 / 128"
      using err by linarith
    also have "\<dots> < pow2 47 + pow2 47"
      using q_up by (simp add: pow2_def)
    also have "\<dots> = pow2 48"
      by (simp add: pow2_def)
    finally have "exponent r < 48"
      using nzr by (intro exponent_less)
    then show ?thesis
      by (simp add: too_large_def)
  qed
  have t: "1 \<le> t" "t \<le> 2 * d - 1"
  proof -
    have "odd (2 * n + d)"
      using assms(1) by simp
    then have "odd t"
      unfolding t_def by (metis dvd_mod_iff dvd_triv_left)
    moreover have "0 \<le> t" "t < 2 * d"
      using assms(2) by (simp_all add: t_def)
    ultimately show "1 \<le> t" "t \<le> 2 * d - 1"
      by (auto elim: oddE)
  qed
  have "2 * n + d = 2 * d * m + t"
    by (simp add: m_def t_def)
  then have "(of_int (2 * n + d) :: rat) = of_int (2 * d * m + t)"
    by (simp only:)
  then have q_eq: "q = of_int m - 1 / 2 + of_int t / (2 * of_int d)"
    using d by (simp add: q_def field_simps)
  have gap: "(1::rat) / 128 < 1 / (2 * of_int d)"
    using d by (simp add: field_simps)
  have "(1::rat) \<le> of_int t" "(of_int t :: rat) \<le> 2 * of_int d - 1"
  proof -
    from t(1) show "(1::rat) \<le> of_int t"
      by simp
    from t(2) have "(of_int t :: rat) \<le> of_int (2 * d - 1)"
      by (simp only: of_int_le_iff)
    then show "(of_int t :: rat) \<le> 2 * of_int d - 1"
      by simp
  qed
  then have "1 / (2 * of_int d) \<le> (of_int t :: rat) / (2 * of_int d)"
    "(of_int t :: rat) / (2 * of_int d) \<le> 1 - 1 / (2 * of_int d)"
    using d by (simp_all add: field_simps)
  with gap q_eq have "of_int m - 1 / 2 + 1 / 128 < q" "q < of_int m + 1 / 2 - 1 / 128"
    by linarith+
  with err have "of_int m - 1 / 2 < r" "r < of_int m + 1 / 2"
    by linarith+
  then have "round_half_even r = m"
    by (rule round_half_even_between)
  with not_large assms(2) show ?thesis
    by (simp add: int_truediv_def Let_def q_def [symmetric] r_def [symmetric] m_def)
qed

text \<open>
  Dividing an int below \<open>2^47\<close> in magnitude by a small odd divisor and rounding gives the
  integer nearest to the exact quotient: the quotient is at least \<open>1 / (2 d)\<close> away from
  every tie, the division errs by \<open>1 / 128\<close> at most. Dividing a float by \<open>33\<close> or
  \<open>25\<close> is exact when the exact quotient is a tie that binary64 holds.
\<close>

lemma round_div_int_nearest:
  assumes "odd d" and "0 < d" and "d < 64" and "\<bar>n\<bar> < 2 ^ 47"
  shows "round_div (PyInt n) d = Inr (PyInt ((2 * n + d) div (2 * d)))"
  using int_truediv_nearest [OF assms] by (auto simp: round_div_def)

lemma round_div_float_half:
  assumes "d = 33 \<or> d = 25"
    and "x / of_int d = of_int k + 1 / 2" and "\<bar>2 * k + 1\<bar> < 2 ^ 53"
  shows "py_truediv (PyFloat (Fin x)) d = Inr (Fin (of_int k + 1 / 2))"
proof -
  from assms(1) have "\<bar>d\<bar> < 2 ^ 53" "d \<noteq> 0"
    by auto
  from float_truediv_half [OF this assms(2,3)] show ?thesis
    by simp
qed

text \<open>The definitions that run a refresh on a concrete input.\<close>

lemmas run_defs = fetch_def async_update_def method_defs ctor_defs getitem_def
  try_except_Exception_def displayed_def

section \<open>Failure of the fetch\<close>

text \<open>
  Claim C1, as the code has it. When \<^verbatim>\<open>update()\<close> or \<^verbatim>\<open>get_sensor_data()\<close> raises
  \<open>x\<close>, the entity object is left as it was, so its displayed value after the cycle is
  the one before. If \<open>x\<close> is an instance of \<^verbatim>\<open>Exception\<close>, it is logged as one warning
  and nothing reaches the caller of \<^verbatim>\<open>async_update\<close>; if it is not (a cancellation, a
  keyboard interrupt, a system exit), the clause \<^verbatim>\<open>except Exception\<close> does not apply
  and \<open>x\<close> reaches the caller, nothing being logged.
\<close>

theorem failed_fetch_keeps_value:
  assumes "upd = Inl x \<or> (\<exists>raw_data. upd = Inr raw_data \<and> gsd raw_data = Inl x)"
  shows "self_after (async_update upd gsd self) = self \<and>
         displayed (self_after (async_update upd gsd self)) = displayed self \<and>
         (isinstance_Exception x \<longrightarrow>
            propagated (async_update upd gsd self) = None \<and>
            logged (async_update upd gsd self) = [x]) \<and>
         (\<not> isinstance_Exception x \<longrightarrow>
            propagated (async_update upd gsd self) = Some x \<and>
            logged (async_update upd gsd self) = [])"
proof -
  from assms have "fetch upd gsd = Inl x"
    by (simp add: fetch_raises_iff)
  then have "async_update upd gsd self = try_except_Exception (Inl x) self"
    by (rule async_update_fetch_raises)
  then show ?thesis
    by (simp add: try_except_Exception_def)
qed

text \<open>
  The theorem on an odor-level sensor whose \<^verbatim>\<open>update()\<close> raises an ordinary
  exception: the exception is logged, nothing reaches the caller, the entity is unchanged.
\<close>

theorem failed_fetch_keeps_value_witness:
  "propagated (async_update (Inl (OtherException ''timeout'')) Inr
      (CocoroAirOdorLevelSensor \<lparr>device_id = ''dev'', device_info = []\<rparr>)) = None \<and>
   logged (async_update (Inl (OtherException ''timeout'')) Inr
      (CocoroAirOdorLevelSensor \<lparr>device_id = ''dev'', device_info = []\<rparr>))
     = [OtherException ''timeout''] \<and>
   self_after (async_update (Inl (OtherException ''timeout'')) Inr
      (CocoroAirOdorLevelSensor \<lparr>device_id = ''dev'', device_info = []\<rparr>))
     = CocoroAirOdorLevelSensor \<lparr>device_id = ''dev'', device_info = []\<rparr>"
  using failed_fetch_keeps_value
    [where upd = "Inl (OtherException ''timeout'')" and x = "OtherException ''timeout''"
       and gsd = Inr
       and self = "CocoroAirOdorLevelSensor \<lparr>device_id = ''dev'', device_info = []\<rparr>"]
  by simp

text \<open>
  Claim C1 as stated does not hold: a cancellation raised by \<^verbatim>\<open>update()\<close> is not
  suppressed, it reaches the caller of \<^verbatim>\<open>async_update\<close>.
\<close>

theorem cancelled_update_reaches_caller:
  "propagated (async_update (Inl CancelledError) Inr
      (CocoroAirTemperatureSensor \<lparr>device_id = ''dev'', device_info = []\<rparr>))
     = Some CancelledError"
  by (simp add: async_update_def CocoroAirTemperatureSensor_async_update_def
        CocoroAirTemperatureSensor_def fetch_def try_except_Exception_def)

section \<open>Construction\<close>

text \<open>
  Claim C8. Right after construction each of the eight entities displays Python's
  \<^verbatim>\<open>None\<close>: the seven sensors hold it in \<^verbatim>\<open>_attr_native_value\<close>, the water-tank
  binary sensor in \<^verbatim>\<open>_attr_is_on\<close>.
\<close>

theorem initial_value_is_None:
  "displayed (CocoroAirTemperatureSensor a) = Some PyNone \<and>
   displayed (CocoroAirHumiditySensor a) = Some PyNone \<and>
   displayed (CocoroAirWaterTankSensor a) = Some PyNone \<and>
   displayed (CocoroAirPM25Sensor a) = Some PyNone \<and>
   displayed (CocoroAirCleanedAirVolumeSensor a) = Some PyNone \<and>
   displayed (CocoroAirOdorLevelSensor a) = Some PyNone \<and>
   displayed (CocoroAirDustLevelSensor a) = Some PyNone \<and>
   displayed (CocoroAirCleanlinessLevelSensor a) = Some PyNone \<and>
   attr_native_value (CocoroAirTemperatureSensor a) = Some PyNone \<and>
   attr_native_value (CocoroAirHumiditySensor a) = Some PyNone \<and>
   attr_is_on (CocoroAirWaterTankSensor a) = Some PyNone \<and>
   attr_native_value (CocoroAirPM25Sensor a) = Some PyNone \<and>
   attr_native_value (CocoroAirCleanedAirVolumeSensor a) = Some PyNone \<and>
   attr_native_value (CocoroAirOdorLevelSensor a) = Some PyNone \<and>
   attr_native_value (CocoroAirDustLevelSensor a) = Some PyNone \<and>
   attr_native_value (CocoroAirCleanlinessLevelSensor a) = Some PyNone"
  by (simp add: displayed_def ctor_defs)

text \<open>
  Claim C7. When the registry holds an API client for the integration instance, the setup
  routine calls the host's callback once, with a list of exactly eight entities: one of
  each class, in the order temperature, humidity, water tank, PM2.5, cleaned air volume,
  odor level, dust level, cleanliness level, every one holding that API client. The
  routine has no handler: it returns what the callback returns (and lemma
  \<open>setup_lookup_fails\<close> shows that a failing lookup leaves it as a \<^verbatim>\<open>KeyError\<close>).
\<close>

theorem setup_registers_eight_entities:
  assumes "data hass DOMAIN = Some by_entry"
    and "by_entry (entry_id entry) = Some slots"
    and "slots ''cocoro_air_api'' = Some a"
  shows "async_setup_entry DOMAIN hass entry async_add_entities =
           Inr (async_add_entities
             [CocoroAirTemperatureSensor a, CocoroAirHumiditySensor a,
              CocoroAirWaterTankSensor a, CocoroAirPM25Sensor a,
              CocoroAirCleanedAirVolumeSensor a, CocoroAirOdorLevelSensor a,
              CocoroAirDustLevelSensor a, CocoroAirCleanlinessLevelSensor a]) \<and>
         length
             [CocoroAirTemperatureSensor a, CocoroAirHumiditySensor a,
              CocoroAirWaterTankSensor a, CocoroAirPM25Sensor a,
              CocoroAirCleanedAirVolumeSensor a, CocoroAirOdorLevelSensor a,
              CocoroAirDustLevelSensor a, CocoroAirCleanlinessLevelSensor a] = 8 \<and>
         map cls
             [CocoroAirTemperatureSensor a, CocoroAirHumiditySensor a,
              CocoroAirWaterTankSensor a, CocoroAirPM25Sensor a,
              CocoroAirCleanedAirVolumeSensor a, CocoroAirOdorLevelSensor a,
              CocoroAirDustLevelSensor a, CocoroAirCleanlinessLevelSensor a]
           = [Temperature, Humidity, WaterTank, PM25, CleanedAirVolume, OdorLevel,
              DustLevel, CleanlinessLevel] \<and>
         map api
             [CocoroAirTemperatureSensor a, CocoroAirHumiditySensor a,
              CocoroAirWaterTankSensor a, CocoroAirPM25Sensor a,
              CocoroAirCleanedAirVolumeSensor a, CocoroAirOdorLevelSensor a,
              CocoroAirDustLevelSensor a, CocoroAirCleanlinessLevelSensor a]
           = replicate 8 a"
proof -
  have "async_setup_entry DOMAIN hass entry async_add_entities =
           Inr (async_add_entities
             [CocoroAirTemperatureSensor a, CocoroAirHumiditySensor a,
              CocoroAirWaterTankSensor a, CocoroAirPM25Sensor a,
              CocoroAirCleanedAirVolumeSensor a, CocoroAirOdorLevelSensor a,
              CocoroAirDustLevelSensor a, CocoroAirCleanlinessLevelSensor a])"
    using assms by (simp add: async_setup_entry_def)
  moreover have "replicate 8 a = [a, a, a, a, a, a, a, a]"
    by (simp add: numeral_eq_Suc)
  ultimately show ?thesis
    by (simp add: ctor_defs)
qed

text \<open>The theorem on a registry with one entry; the callback here collects the identifiers.\<close>

theorem setup_registers_eight_entities_witness:
  "async_setup_entry ''cocoro_air''
      \<lparr>data = map_of [(''cocoro_air'', map_of [(''entry1'', map_of [(''cocoro_air_api'',
          \<lparr>device_id = ''dev'', device_info = []\<rparr>)])])]\<rparr>
      \<lparr>entry_id = ''entry1''\<rparr> (map attr_unique_id)
    = Inr [''dev_temperature'', ''dev_humidity'', ''dev_water_tank'', ''dev_pm25'',
           ''dev_cleaned_air_volume'', ''dev_odor_level'', ''dev_dust_level'',
           ''dev_cleanliness_level'']"
  using setup_registers_eight_entities
    [where hass = "\<lparr>data = map_of [(''cocoro_air'', map_of [(''entry1'',
            map_of [(''cocoro_air_api'', \<lparr>device_id = ''dev'', device_info = []\<rparr>)])])]\<rparr>"
       and DOMAIN = "''cocoro_air''" and entry = "\<lparr>entry_id = ''entry1''\<rparr>"
       and by_entry = "map_of [(''entry1'',
            map_of [(''cocoro_air_api'', \<lparr>device_id = ''dev'', device_info = []\<rparr>)])]"
       and slots = "map_of [(''cocoro_air_api'', \<lparr>device_id = ''dev'', device_info = []\<rparr>)]"
       and a = "\<lparr>device_id = ''dev'', device_info = []\<rparr>"
       and async_add_entities = "map attr_unique_id"]
  by (simp add: ctor_defs)

text \<open>
  Claim C4. The unique identifiers of the eight entities the setup routine constructs
  are the device id followed by the suffix of the class, and they are pairwise distinct.
\<close>

theorem unique_ids_distinct:
  assumes "async_setup_entry DOMAIN hass entry (\<lambda>es. es) = Inr es"
  shows "(\<exists>a. (\<forall>e \<in> set es. api e = a) \<and>
           map attr_unique_id es = map (\<lambda>suffix. device_id a @ suffix)
             [''_temperature'', ''_humidity'', ''_water_tank'', ''_pm25'',
              ''_cleaned_air_volume'', ''_odor_level'', ''_dust_level'',
              ''_cleanliness_level'']) \<and>
         length es = 8 \<and> distinct (map attr_unique_id es)"
proof -
  from setup_entities [OF assms] obtain a where es: "es =
          [CocoroAirTemperatureSensor a, CocoroAirHumiditySensor a,
           CocoroAirWaterTankSensor a, CocoroAirPM25Sensor a,
           CocoroAirCleanedAirVolumeSensor a, CocoroAirOdorLevelSensor a,
           CocoroAirDustLevelSensor a, CocoroAirCleanlinessLevelSensor a]"
    by blast
  have "\<forall>e \<in> set es. api e = a"
    by (simp add: es ctor_defs)
  moreover have "map attr_unique_id es = map (\<lambda>suffix. device_id a @ suffix)
             [''_temperature'', ''_humidity'', ''_water_tank'', ''_pm25'',
              ''_cleaned_air_volume'', ''_odor_level'', ''_dust_level'',
              ''_cleanliness_level'']"
    by (simp add: es ctor_defs)
  moreover have "distinct (map attr_unique_id es)"
    by (simp add: es ctor_defs)
  moreover have "length es = 8"
    by (simp add: es)
  ultimately show ?thesis
    by blast
qed

text \<open>The theorem on the eight entities of the device \<^verbatim>\<open>dev\<close>.\<close>

theorem unique_ids_distinct_witness:
  "distinct (map attr_unique_id
     [CocoroAirTemperatureSensor \<lparr>device_id = ''dev'', device_info = []\<rparr>,
      CocoroAirHumiditySensor \<lparr>device_id = ''dev'', device_info = []\<rparr>,
      CocoroAirWaterTankSensor \<lparr>device_id = ''dev'', device_info = []\<rparr>,
      CocoroAirPM25Sensor \<lparr>device_id = ''dev'', device_info = []\<rparr>,
      CocoroAirCleanedAirVolumeSensor \<lparr>device_id = ''dev'', device_info = []\<rparr>,
      CocoroAirOdorLevelSensor \<lparr>device_id = ''dev'', device_info = []\<rparr>,
      CocoroAirDustLevelSensor \<lparr>device_id = ''dev'', device_info = []\<rparr>,
      CocoroAirCleanlinessLevelSensor \<lparr>device_id = ''dev'', device_info = []\<rparr>])"
  using unique_ids_distinct
    [where hass = "\<lparr>data = map_of [(''cocoro_air'', map_of [(''entry1'',
            map_of [(''cocoro_air_api'', \<lparr>device_id = ''dev'', device_info = []\<rparr>)])])]\<rparr>"
       and DOMAIN = "''cocoro_air''" and entry = "\<lparr>entry_id = ''entry1''\<rparr>"
       and es = "[CocoroAirTemperatureSensor \<lparr>device_id = ''dev'', device_info = []\<rparr>,
      CocoroAirHumiditySensor \<lparr>device_id = ''dev'', device_info = []\<rparr>,
      CocoroAirWaterTankSensor \<lparr>device_id = ''dev'', device_info = []\<rparr>,
      CocoroAirPM25Sensor \<lparr>device_id = ''dev'', device_info = []\<rparr>,
      CocoroAirCleanedAirVolumeSensor \<lparr>device_id = ''dev'', device_info = []\<rparr>,
      CocoroAirOdorLevelSensor \<lparr>device_id = ''dev'', device_info = []\<rparr>,
      CocoroAirDustLevelSensor \<lparr>device_id = ''dev'', device_info = []\<rparr>,
      CocoroAirCleanlinessLevelSensor \<lparr>device_id = ''dev'', device_info = []\<rparr>]"]
  by (simp add: async_setup_entry_def)

section \<open>Refreshing\<close>

text \<open>
  Claim C5. Two consecutive refreshes of an entity whose fetches return the same dict
  leave the entity, and so its displayed value, as the first refresh left it. This holds
  whether the refreshes succeed or not, so in particular for two successful ones.
\<close>

theorem refresh_idempotent:
  assumes "fetch upd1 gsd1 = Inr snap" and "fetch upd2 gsd2 = Inr snap"
  shows "self_after (async_update upd2 gsd2 (self_after (async_update upd1 gsd1 self)))
           = self_after (async_update upd1 gsd1 self) \<and>
         displayed (self_after (async_update upd2 gsd2 (self_after (async_update upd1 gsd1 self))))
           = displayed (self_after (async_update upd1 gsd1 self))"
proof (cases "assigned (cls self) snap")
  case (Inl e)
  then show ?thesis
    by (simp add: async_update_eq [OF assms(1)] async_update_eq [OF assms(2)]
          try_except_Exception_def)
next
  case (Inr v)
  then show ?thesis
    by (simp add: async_update_eq [OF assms(1)] async_update_eq [OF assms(2)]
          try_except_Exception_def)
qed

text \<open>The theorem on a dust-level sensor refreshed twice with a dust level of \<open>12\<close>.\<close>

theorem refresh_idempotent_witness:
  "displayed (self_after (async_update (Inr (map_of [(''dust_level'', PyInt 12)])) Inr
      (self_after (async_update (Inr (map_of [(''dust_level'', PyInt 12)])) Inr
         (CocoroAirDustLevelSensor \<lparr>device_id = ''dev'', device_info = []\<rparr>)))))
   = displayed (self_after (async_update (Inr (map_of [(''dust_level'', PyInt 12)])) Inr
         (CocoroAirDustLevelSensor \<lparr>device_id = ''dev'', device_info = []\<rparr>)))"
  using refresh_idempotent
    [where ?upd1.0 = "Inr (map_of [(''dust_level'', PyInt 12)])" and ?gsd1.0 = Inr
       and ?upd2.0 = "Inr (map_of [(''dust_level'', PyInt 12)])" and ?gsd2.0 = Inr
       and snap = "map_of [(''dust_level'', PyInt 12)]"
       and self = "CocoroAirDustLevelSensor \<lparr>device_id = ''dev'', device_info = []\<rparr>"]
  by (simp add: fetch_def)

text \<open>
  Claim C10. Two entities of the same class, whatever values they displayed before,
  display equal values after successful refreshes (nothing logged, nothing raised) whose
  fetches returned the same dict.
\<close>

theorem displayed_value_determined_by_snapshot:
  assumes "cls e1 = cls e2"
    and "fetch upd1 gsd1 = Inr snap" and "fetch upd2 gsd2 = Inr snap"
    and "propagated (async_update upd1 gsd1 e1) = None"
    and "logged (async_update upd1 gsd1 e1) = []"
    and "propagated (async_update upd2 gsd2 e2) = None"
    and "logged (async_update upd2 gsd2 e2) = []"
  shows "displayed (self_after (async_update upd1 gsd1 e1))
           = displayed (self_after (async_update upd2 gsd2 e2))"
proof (cases "assigned (cls e1) snap")
  case (Inl e)
  with assms(4,5) show ?thesis
    by (simp add: async_update_eq [OF assms(2)] try_except_Exception_def split: if_splits)
next
  case (Inr v)
  with assms(1) show ?thesis
    by (simp add: async_update_eq [OF assms(2)] async_update_eq [OF assms(3)]
          try_except_Exception_def)
qed

text \<open>The theorem on two temperature sensors that displayed \<open>18\<close> and \<open>30\<close>.\<close>

theorem displayed_value_determined_by_snapshot_witness:
  "displayed (self_after (async_update (Inr (map_of [(''temperature'', PyInt 21)])) Inr
      ((CocoroAirTemperatureSensor \<lparr>device_id = ''dev'', device_info = []\<rparr>)
         \<lparr>attr_native_value := Some (PyInt 18)\<rparr>)))
   = displayed (self_after (async_update (Inr (map_of [(''temperature'', PyInt 21)])) Inr
      ((CocoroAirTemperatureSensor \<lparr>device_id = ''dev'', device_info = []\<rparr>)
         \<lparr>attr_native_value := Some (PyInt 30)\<rparr>)))"
  using displayed_value_determined_by_snapshot
    [where ?upd1.0 = "Inr (map_of [(''temperature'', PyInt 21)])" and ?gsd1.0 = Inr
       and ?upd2.0 = "Inr (map_of [(''temperature'', PyInt 21)])" and ?gsd2.0 = Inr
       and snap = "map_of [(''temperature'', PyInt 21)]"
       and ?e1.0 = "(CocoroAirTemperatureSensor \<lparr>device_id = ''dev'', device_info = []\<rparr>)
         \<lparr>attr_native_value := Some (PyInt 18)\<rparr>"
       and ?e2.0 = "(CocoroAirTemperatureSensor \<lparr>device_id = ''dev'', device_info = []\<rparr>)
         \<lparr>attr_native_value := Some (PyInt 30)\<rparr>"]
  by (simp add: run_defs)

text \<open>
  Claim C6. A call of \<^verbatim>\<open>async_update\<close> on the entity object at position \<open>i\<close> leaves
  every other entity object as it was, and changes no attribute of the object itself
  other than the one it displays: class (hence name and unit), API reference, unique
  identifier and device info stay, and so does the value attribute the class does not use.
\<close>

theorem refresh_writes_only_displayed_value:
  assumes "i < length objs" and "call_async_update i upd gsd objs = (p, l, objs')"
  shows "length objs' = length objs \<and>
         (\<forall>j < length objs. j \<noteq> i \<longrightarrow> objs' ! j = objs ! j) \<and>
         cls (objs' ! i) = cls (objs ! i) \<and>
         api (objs' ! i) = api (objs ! i) \<and>
         attr_unique_id (objs' ! i) = attr_unique_id (objs ! i) \<and>
         attr_device_info (objs' ! i) = attr_device_info (objs ! i) \<and>
         attr_name (cls (objs' ! i)) = attr_name (cls (objs ! i)) \<and>
         attr_native_unit_of_measurement (cls (objs' ! i))
           = attr_native_unit_of_measurement (cls (objs ! i)) \<and>
         (cls (objs ! i) = WaterTank \<longrightarrow>
            attr_native_value (objs' ! i) = attr_native_value (objs ! i)) \<and>
         (cls (objs ! i) \<noteq> WaterTank \<longrightarrow> attr_is_on (objs' ! i) = attr_is_on (objs ! i))"
proof -
  from assms have objs': "objs' = objs[i := self_after (async_update upd gsd (objs ! i))]"
    by (simp add: call_async_update_def Let_def)
  from assms(1) have at_i: "objs' ! i = self_after (async_update upd gsd (objs ! i))"
    by (simp add: objs')
  have others: "\<forall>j < length objs. j \<noteq> i \<longrightarrow> objs' ! j = objs ! j"
    by (simp add: objs')
  have len: "length objs' = length objs"
    by (simp add: objs')
  from async_update_frame [of upd gsd "objs ! i"] others len show ?thesis
    unfolding at_i by simp
qed


text \<open>The theorem on two entity objects, the first of which is refreshed.\<close>

theorem refresh_writes_only_displayed_value_witness:
  "snd (snd (call_async_update 0 (Inr (map_of [(''temperature'', PyInt 21)])) Inr
      [CocoroAirTemperatureSensor \<lparr>device_id = ''dev'', device_info = []\<rparr>,
       CocoroAirHumiditySensor \<lparr>device_id = ''dev'', device_info = []\<rparr>])) ! 1
     = CocoroAirHumiditySensor \<lparr>device_id = ''dev'', device_info = []\<rparr> \<and>
   attr_unique_id (snd (snd (call_async_update 0 (Inr (map_of [(''temperature'', PyInt 21)])) Inr
      [CocoroAirTemperatureSensor \<lparr>device_id = ''dev'', device_info = []\<rparr>,
       CocoroAirHumiditySensor \<lparr>device_id = ''dev'', device_info = []\<rparr>])) ! 0)
     = ''dev_temperature''"
  using refresh_writes_only_displayed_value
    [where i = 0 and upd = "Inr (map_of [(''temperature'', PyInt 21)])" and gsd = Inr
       and objs = "[CocoroAirTemperatureSensor \<lparr>device_id = ''dev'', device_info = []\<rparr>,
                    CocoroAirHumiditySensor \<lparr>device_id = ''dev'', device_info = []\<rparr>]"
       and p = "fst (call_async_update 0 (Inr (map_of [(''temperature'', PyInt 21)])) Inr
      [CocoroAirTemperatureSensor \<lparr>device_id = ''dev'', device_info = []\<rparr>,
       CocoroAirHumiditySensor \<lparr>device_id = ''dev'', device_info = []\<rparr>])"
       and l = "fst (snd (call_async_update 0 (Inr (map_of [(''temperature'', PyInt 21)])) Inr
      [CocoroAirTemperatureSensor \<lparr>device_id = ''dev'', device_info = []\<rparr>,
       CocoroAirHumiditySensor \<lparr>device_id = ''dev'', device_info = []\<rparr>]))"
       and objs' = "snd (snd (call_async_update 0 (Inr (map_of [(''temperature'', PyInt 21)])) Inr
      [CocoroAirTemperatureSensor \<lparr>device_id = ''dev'', device_info = []\<rparr>,
       CocoroAirHumiditySensor \<lparr>device_id = ''dev'', device_info = []\<rparr>]))"]
  by (simp add: CocoroAirTemperatureSensor_def)

section \<open>What a refresh displays\<close>

text \<open>
  Claim C2. A fetch returns a dict that holds a value \<open>raw\<close> other than \<^verbatim>\<open>None\<close>
  under the key of the class. The odor-level entity then succeeds (nothing raised to the
  caller, nothing logged) exactly when \<^verbatim>\<open>raw / 33\<close> and its rounding do, and displays
  \<^verbatim>\<open>round(raw / 33)\<close>; likewise the dust-level and the cleanliness-level entity with
  \<^verbatim>\<open>round(raw / 25)\<close>. For an int \<open>i\<close> below \<open>2^47\<close> in magnitude the refresh succeeds
  and displays the integer nearest to the exact quotient, \<open>(2 i + d) div (2 d)\<close>. The
  temperature, humidity, water-tank, PM2.5 and cleaned-air-volume entities succeed and
  display \<open>raw\<close> itself. An odor level of \<open>99\<close> displays \<open>3\<close>, a dust level of \<open>12\<close>
  displays \<open>0\<close>.
\<close>

theorem successful_refresh_displays_scaled_or_raw:
  assumes "fetch upd gsd = Inr snap" and "raw \<noteq> PyNone"
  shows "(cls self = OdorLevel \<and> snap ''odor_level'' = Some raw \<longrightarrow>
            ((propagated (async_update upd gsd self) = None \<and> logged (async_update upd gsd self) = [])
               = (\<exists>q n. py_truediv raw 33 = Inr q \<and> py_round q = Inr n)) \<and>
            (\<forall>q n. py_truediv raw 33 = Inr q \<and> py_round q = Inr n \<longrightarrow>
               displayed (self_after (async_update upd gsd self)) = Some (PyInt n))) \<and>
         (cls self = DustLevel \<and> snap ''dust_level'' = Some raw \<longrightarrow>
            ((propagated (async_update upd gsd self) = None \<and> logged (async_update upd gsd self) = [])
               = (\<exists>q n. py_truediv raw 25 = Inr q \<and> py_round q = Inr n)) \<and>
            (\<forall>q n. py_truediv raw 25 = Inr q \<and> py_round q = Inr n \<longrightarrow>
               displayed (self_after (async_update upd gsd self)) = Some (PyInt n))) \<and>
         (cls self = CleanlinessLevel \<and> snap ''cleanliness_level'' = Some raw \<longrightarrow>
            ((propagated (async_update upd gsd self) = None \<and> logged (async_update upd gsd self) = [])
               = (\<exists>q n. py_truediv raw 25 = Inr q \<and> py_round q = Inr n)) \<and>
            (\<forall>q n. py_truediv raw 25 = Inr q \<and> py_round q = Inr n \<longrightarrow>
               displayed (self_after (async_update upd gsd self)) = Some (PyInt n))) \<and>
         (cls self = OdorLevel \<and> snap ''odor_level'' = Some (PyInt i) \<and> \<bar>i\<bar> < 2 ^ 47 \<longrightarrow>
            displayed (self_after (async_update upd gsd self)) = Some (PyInt ((2 * i + 33) div 66)) \<and>
            propagated (async_update upd gsd self) = None \<and>
            logged (async_update upd gsd self) = []) \<and>
         (cls self = DustLevel \<and> snap ''dust_level'' = Some (PyInt i) \<and> \<bar>i\<bar> < 2 ^ 47 \<longrightarrow>
            displayed (self_after (async_update upd gsd self)) = Some (PyInt ((2 * i + 25) div 50)) \<and>
            propagated (async_update upd gsd self) = None \<and>
            logged (async_update upd gsd self) = []) \<and>
         (cls self = CleanlinessLevel \<and> snap ''cleanliness_level'' = Some (PyInt i) \<and> \<bar>i\<bar> < 2 ^ 47 \<longrightarrow>
            displayed (self_after (async_update upd gsd self)) = Some (PyInt ((2 * i + 25) div 50)) \<and>
            propagated (async_update upd gsd self) = None \<and>
            logged (async_update upd gsd self) = []) \<and>
         (cls self = Temperature \<and> snap ''temperature'' = Some raw \<longrightarrow>
            displayed (self_after (async_update upd gsd self)) = Some raw \<and>
            propagated (async_update upd gsd self) = None \<and>
            logged (async_update upd gsd self) = []) \<and>
         (cls self = Humidity \<and> snap ''humidity'' = Some raw \<longrightarrow>
            displayed (self_after (async_update upd gsd self)) = Some raw \<and>
            propagated (async_update upd gsd self) = None \<and>
            logged (async_update upd gsd self) = []) \<and>
         (cls self = WaterTank \<and> snap ''water_tank'' = Some raw \<longrightarrow>
            displayed (self_after (async_update upd gsd self)) = Some raw \<and>
            propagated (async_update upd gsd self) = None \<and>
            logged (async_update upd gsd self) = []) \<and>
         (cls self = PM25 \<and> snap ''pm25'' = Some raw \<longrightarrow>
            displayed (self_after (async_update upd gsd self)) = Some raw \<and>
            propagated (async_update upd gsd self) = None \<and>
            logged (async_update upd gsd self) = []) \<and>
         (cls self = CleanedAirVolume \<and> snap ''cleaned_air_volume'' = Some raw \<longrightarrow>
            displayed (self_after (async_update upd gsd self)) = Some raw \<and>
            propagated (async_update upd gsd self) = None \<and>
            logged (async_update upd gsd self) = []) \<and>
         (cls self = OdorLevel \<and> snap ''odor_level'' = Some (PyInt 99) \<longrightarrow>
            displayed (self_after (async_update upd gsd self)) = Some (PyInt 3) \<and>
            propagated (async_update upd gsd self) = None \<and>
            logged (async_update upd gsd self) = []) \<and>
         (cls self = DustLevel \<and> snap ''dust_level'' = Some (PyInt 12) \<longrightarrow>
            displayed (self_after (async_update upd gsd self)) = Some (PyInt 0) \<and>
            propagated (async_update upd gsd self) = None \<and>
            logged (async_update upd gsd self) = [])"
proof -
  have c1: "cls self = OdorLevel \<and> snap ''odor_level'' = Some raw \<longrightarrow>
            ((propagated (async_update upd gsd self) = None \<and> logged (async_update upd gsd self) = [])
               = (\<exists>q n. py_truediv raw 33 = Inr q \<and> py_round q = Inr n)) \<and>
            (\<forall>q n. py_truediv raw 33 = Inr q \<and> py_round q = Inr n \<longrightarrow>
               displayed (self_after (async_update upd gsd self)) = Some (PyInt n))"
    (is "_ \<longrightarrow> ?concl")
  proof
    assume h: "cls self = OdorLevel \<and> snap ''odor_level'' = Some raw"
    have "assigned (cls self) snap = round_div raw 33"
      using h assms(2) by (simp add: assigned_def getitem_def)
    then show ?concl
      by (rule round_div_succeeds [OF assms(1)])
  qed
  have c2: "cls self = DustLevel \<and> snap ''dust_level'' = Some raw \<longrightarrow>
            ((propagated (async_update upd gsd self) = None \<and> logged (async_update upd gsd self) = [])
               = (\<exists>q n. py_truediv raw 25 = Inr q \<and> py_round q = Inr n)) \<and>
            (\<forall>q n. py_truediv raw 25 = Inr q \<and> py_round q = Inr n \<longrightarrow>
               displayed (self_after (async_update upd gsd self)) = Some (PyInt n))"
    (is "_ \<longrightarrow> ?concl")
  proof
    assume h: "cls self = DustLevel \<and> snap ''dust_level'' = Some raw"
    have "assigned (cls self) snap = round_div raw 25"
      using h assms(2) by (simp add: assigned_def getitem_def)
    then show ?concl
      by (rule round_div_succeeds [OF assms(1)])
  qed
  have c3: "cls self = CleanlinessLevel \<and> snap ''cleanliness_level'' = Some raw \<longrightarrow>
            ((propagated (async_update upd gsd self) = None \<and> logged (async_update upd gsd self) = [])
               = (\<exists>q n. py_truediv raw 25 = Inr q \<and> py_round q = Inr n)) \<and>
            (\<forall>q n. py_truediv raw 25 = Inr q \<and> py_round q = Inr n \<longrightarrow>
               displayed (self_after (async_update upd gsd self)) = Some (PyInt n))"
    (is "_ \<longrightarrow> ?concl")
  proof
    assume h: "cls self = CleanlinessLevel \<and> snap ''cleanliness_level'' = Some raw"
    have "assigned (cls self) snap = round_div raw 25"
      using h assms(2) by (simp add: assigned_def getitem_def)
    then show ?concl
      by (rule round_div_succeeds [OF assms(1)])
  qed
  have c4: "cls self = OdorLevel \<and> snap ''odor_level'' = Some (PyInt i) \<and> \<bar>i\<bar> < 2 ^ 47 \<longrightarrow>
            displayed (self_after (async_update upd gsd self)) = Some (PyInt ((2 * i + 33) div 66)) \<and>
            propagated (async_update upd gsd self) = None \<and>
            logged (async_update upd gsd self) = []"
    (is "_ \<longrightarrow> ?concl")
  proof
    assume h: "cls self = OdorLevel \<and> snap ''odor_level'' = Some (PyInt i) \<and> \<bar>i\<bar> < 2 ^ 47"
    have "assigned (cls self) snap = Inr (PyInt ((2 * i + 33) div 66))"
      using h round_div_int_nearest [of 33 i] by (simp add: assigned_def getitem_def)
    then show ?concl
      by (rule assigned_displays [OF assms(1)])
  qed
  have c5: "cls self = DustLevel \<and> snap ''dust_level'' = Some (PyInt i) \<and> \<bar>i\<bar> < 2 ^ 47 \<longrightarrow>
            displayed (self_after (async_update upd gsd self)) = Some (PyInt ((2 * i + 25) div 50)) \<and>
            propagated (async_update upd gsd self) = None \<and>
            logged (async_update upd gsd self) = []"
    (is "_ \<longrightarrow> ?concl")
  proof
    assume h: "cls self = DustLevel \<and> snap ''dust_level'' = Some (PyInt i) \<and> \<bar>i\<bar> < 2 ^ 47"
    have "assigned (cls self) snap = Inr (PyInt ((2 * i + 25) div 50))"
      using h round_div_int_nearest [of 25 i] by (simp add: assigned_def getitem_def)
    then show ?concl
      by (rule assigned_displays [OF assms(1)])
  qed
  have c6: "cls self = CleanlinessLevel \<and> snap ''cleanliness_level'' = Some (PyInt i) \<and> \<bar>i\<bar> < 2 ^ 47 \<longrightarrow>
            displayed (self_after (async_update upd gsd self)) = Some (PyInt ((2 * i + 25) div 50)) \<and>
            propagated (async_update upd gsd self) = None \<and>
            logged (async_update upd gsd self) = []"
    (is "_ \<longrightarrow> ?concl")
  proof
    assume h: "cls self = CleanlinessLevel \<and> snap ''cleanliness_level'' = Some (PyInt i) \<and> \<bar>i\<bar> < 2 ^ 47"
    have "assigned (cls self) snap = Inr (PyInt ((2 * i + 25) div 50))"
      using h round_div_int_nearest [of 25 i] by (simp add: assigned_def getitem_def)
    then show ?concl
      by (rule assigned_displays [OF assms(1)])
  qed
  have c7: "cls self = Temperature \<and> snap ''temperature'' = Some raw \<longrightarrow>
            displayed (self_after (async_update upd gsd self)) = Some raw \<and>
            propagated (async_update upd gsd self) = None \<and>
            logged (async_update upd gsd self) = []"
    (is "_ \<longrightarrow> ?concl")
  proof
    assume h: "cls self = Temperature \<and> snap ''temperature'' = Some raw"
    have "assigned (cls self) snap = Inr raw"
      using h by (simp add: assigned_def getitem_def)
    then show ?concl
      by (rule assigned_displays [OF assms(1)])
  qed
  have c8: "cls self = Humidity \<and> snap ''humidity'' = Some raw \<longrightarrow>
            displayed (self_after (async_update upd gsd self)) = Some raw \<and>
            propagated (async_update upd gsd self) = None \<and>
            logged (async_update upd gsd self) = []"
    (is "_ \<longrightarrow> ?concl")
  proof
    assume h: "cls self = Humidity \<and> snap ''humidity'' = Some raw"
    have "assigned (cls self) snap = Inr raw"
      using h by (simp add: assigned_def getitem_def)
    then show ?concl
      by (rule assigned_displays [OF assms(1)])
  qed
  have c9: "cls self = WaterTank \<and> snap ''water_tank'' = Some raw \<longrightarrow>
            displayed (self_after (async_update upd gsd self)) = Some raw \<and>
            propagated (async_update upd gsd self) = None \<and>
            logged (async_update upd gsd self) = []"
    (is "_ \<longrightarrow> ?concl")
  proof
    assume h: "cls self = WaterTank \<and> snap ''water_tank'' = Some raw"
    have "assigned (cls self) snap = Inr raw"
      using h by (simp add: assigned_def getitem_def)
    then show ?concl
      by (rule assigned_displays [OF assms(1)])
  qed
  have c10: "cls self = PM25 \<and> snap ''pm25'' = Some raw \<longrightarrow>
            displayed (self_after (async_update upd gsd self)) = Some raw \<and>
            propagated (async_update upd gsd self) = None \<and>
            logged (async_update upd gsd self) = []"
    (is "_ \<longrightarrow> ?concl")
  proof
    assume h: "cls self = PM25 \<and> snap ''pm25'' = Some raw"
    have "assigned (cls self) snap = Inr raw"
      using h by (simp add: assigned_def getitem_def)
    then show ?concl
      by (rule assigned_displays [OF assms(1)])
  qed
  have c11: "cls self = CleanedAirVolume \<and> snap ''cleaned_air_volume'' = Some raw \<longrightarrow>
            displayed (self_after (async_update upd gsd self)) = Some raw \<and>
            propagated (async_update upd gsd self) = None \<and>
            logged (async_update upd gsd self) = []"
    (is "_ \<longrightarrow> ?concl")
  proof
    assume h: "cls self = CleanedAirVolume \<and> snap ''cleaned_air_volume'' = Some raw"
    have "assigned (cls self) snap = Inr raw"
      using h by (simp add: assigned_def getitem_def)
    then show ?concl
      by (rule assigned_displays [OF assms(1)])
  qed
  have c12: "cls self = OdorLevel \<and> snap ''odor_level'' = Some (PyInt 99) \<longrightarrow>
            displayed (self_after (async_update upd gsd self)) = Some (PyInt 3) \<and>
            propagated (async_update upd gsd self) = None \<and>
            logged (async_update upd gsd self) = []"
    (is "_ \<longrightarrow> ?concl")
  proof
    assume h: "cls self = OdorLevel \<and> snap ''odor_level'' = Some (PyInt 99)"
    have "assigned (cls self) snap = Inr (PyInt 3)"
      using h by (simp add: assigned_def getitem_def round_div_99)
    then show ?concl
      by (rule assigned_displays [OF assms(1)])
  qed
  have c13: "cls self = DustLevel \<and> snap ''dust_level'' = Some (PyInt 12) \<longrightarrow>
            displayed (self_after (async_update upd gsd self)) = Some (PyInt 0) \<and>
            propagated (async_update upd gsd self) = None \<and>
            logged (async_update upd gsd self) = []"
    (is "_ \<longrightarrow> ?concl")
  proof
    assume h: "cls self = DustLevel \<and> snap ''dust_level'' = Some (PyInt 12)"
    have "assigned (cls self) snap = Inr (PyInt 0)"
      using h by (simp add: assigned_def getitem_def round_div_12)
    then show ?concl
      by (rule assigned_displays [OF assms(1)])
  qed
  show ?thesis
    by (intro conjI) (fact c1 c2 c3 c4 c5 c6 c7 c8 c9 c10 c11 c12 c13)+
qed

text \<open>
  The theorem on an odor level of \<open>99\<close>, on a dust-level sensor that displayed \<open>3\<close> and
  reads a dust level of \<open>12\<close>, and on a temperature sensor that displayed \<open>18\<close> and
  reads \<open>21\<close>.
\<close>

theorem successful_refresh_displays_scaled_or_raw_witness:
  "displayed (self_after (async_update (Inr (map_of [(''odor_level'', PyInt 99)])) Inr
      (CocoroAirOdorLevelSensor \<lparr>device_id = ''dev'', device_info = []\<rparr>)))
     = Some (PyInt 3) \<and>
   logged (async_update (Inr (map_of [(''odor_level'', PyInt 99)])) Inr
      (CocoroAirOdorLevelSensor \<lparr>device_id = ''dev'', device_info = []\<rparr>)) = [] \<and>
   displayed (self_after (async_update (Inr (map_of [(''dust_level'', PyInt 12)])) Inr
      ((CocoroAirDustLevelSensor \<lparr>device_id = ''dev'', device_info = []\<rparr>)
         \<lparr>attr_native_value := Some (PyInt 3)\<rparr>)))
     = Some (PyInt 0) \<and>
   displayed (self_after (async_update (Inr (map_of [(''temperature'', PyInt 21)])) Inr
      ((CocoroAirTemperatureSensor \<lparr>device_id = ''dev'', device_info = []\<rparr>)
         \<lparr>attr_native_value := Some (PyInt 18)\<rparr>)))
     = Some (PyInt 21)"
  using successful_refresh_displays_scaled_or_raw
    [where upd = "Inr (map_of [(''odor_level'', PyInt 99)])" and gsd = Inr
       and snap = "map_of [(''odor_level'', PyInt 99)]" and raw = "PyInt 99"
       and self = "CocoroAirOdorLevelSensor \<lparr>device_id = ''dev'', device_info = []\<rparr>"]
    successful_refresh_displays_scaled_or_raw
    [where upd = "Inr (map_of [(''dust_level'', PyInt 12)])" and gsd = Inr
       and snap = "map_of [(''dust_level'', PyInt 12)]" and raw = "PyInt 12"
       and self = "(CocoroAirDustLevelSensor \<lparr>device_id = ''dev'', device_info = []\<rparr>)
         \<lparr>attr_native_value := Some (PyInt 3)\<rparr>"]
    successful_refresh_displays_scaled_or_raw
    [where upd = "Inr (map_of [(''temperature'', PyInt 21)])" and gsd = Inr
       and snap = "map_of [(''temperature'', PyInt 21)]" and raw = "PyInt 21"
       and self = "(CocoroAirTemperatureSensor \<lparr>device_id = ''dev'', device_info = []\<rparr>)
         \<lparr>attr_native_value := Some (PyInt 18)\<rparr>"]
  by (simp add: fetch_def ctor_defs)

text \<open>
  Claim C3, as the code has it. When the fetch returns a dict in which the key of the class
  holds \<^verbatim>\<open>None\<close>, the entity displays \<^verbatim>\<open>None\<close> after the refresh. When the key is
  missing from the dict, the subscript raises \<^verbatim>\<open>KeyError\<close>, which the handler logs, and
  the entity is left as it was.
\<close>

theorem null_field_displays_None:
  assumes "fetch upd gsd = Inr snap"
    and "key = (case cls self of
           Temperature \<Rightarrow> ''temperature'' | Humidity \<Rightarrow> ''humidity''
         | WaterTank \<Rightarrow> ''water_tank'' | PM25 \<Rightarrow> ''pm25''
         | CleanedAirVolume \<Rightarrow> ''cleaned_air_volume'' | OdorLevel \<Rightarrow> ''odor_level''
         | DustLevel \<Rightarrow> ''dust_level'' | CleanlinessLevel \<Rightarrow> ''cleanliness_level'')"
  shows "(snap key = Some PyNone \<longrightarrow>
            displayed (self_after (async_update upd gsd self)) = Some PyNone \<and>
            propagated (async_update upd gsd self) = None \<and>
            logged (async_update upd gsd self) = []) \<and>
         (snap key = None \<longrightarrow>
            self_after (async_update upd gsd self) = self \<and>
            propagated (async_update upd gsd self) = None \<and>
            logged (async_update upd gsd self) = [KeyError key])"
  using assms(2)
  by (cases "cls self")
    (simp_all add: async_update_eq [OF assms(1)] assigned_def getitem_def
       try_except_Exception_def)

text \<open>
  The theorem on a cleanliness-level sensor whose key holds \<^verbatim>\<open>None\<close>, and on a
  temperature sensor whose key is missing.
\<close>

theorem null_field_displays_None_witness:
  "displayed (self_after (async_update (Inr (map_of [(''cleanliness_level'', PyNone)])) Inr
      ((CocoroAirCleanlinessLevelSensor \<lparr>device_id = ''dev'', device_info = []\<rparr>)
         \<lparr>attr_native_value := Some (PyInt 2)\<rparr>))) = Some PyNone \<and>
   logged (async_update (Inr (map_of [(''humidity'', PyInt 40)])) Inr
      (CocoroAirTemperatureSensor \<lparr>device_id = ''dev'', device_info = []\<rparr>))
     = [KeyError ''temperature'']"
  using null_field_displays_None
    [where upd = "Inr (map_of [(''cleanliness_level'', PyNone)])" and gsd = Inr
       and snap = "map_of [(''cleanliness_level'', PyNone)]"
       and key = "''cleanliness_level''"
       and self = "(CocoroAirCleanlinessLevelSensor \<lparr>device_id = ''dev'', device_info = []\<rparr>)
         \<lparr>attr_native_value := Some (PyInt 2)\<rparr>"]
    null_field_displays_None
    [where upd = "Inr (map_of [(''humidity'', PyInt 40)])" and gsd = Inr
       and snap = "map_of [(''humidity'', PyInt 40)]"
       and key = "''temperature''"
       and self = "CocoroAirTemperatureSensor \<lparr>device_id = ''dev'', device_info = []\<rparr>"]
  by (simp add: fetch_def ctor_defs)

text \<open>
  Claim C3 as stated does not hold for a missing key: a temperature sensor that displays
  \<open>21\<close> still displays \<open>21\<close>, not \<^verbatim>\<open>None\<close>, after a refresh whose dict has no
  \<^verbatim>\<open>temperature\<close> key.
\<close>

theorem absent_field_keeps_previous_value:
  "displayed (self_after (async_update (Inr (map_of [(''humidity'', PyInt 40)])) Inr
      ((CocoroAirTemperatureSensor \<lparr>device_id = ''dev'', device_info = []\<rparr>)
         \<lparr>attr_native_value := Some (PyInt 21)\<rparr>))) = Some (PyInt 21)"
  by (simp add: run_defs)

section \<open>Ties\<close>

text \<open>
  Claim C9. In the three scaled entities, a quotient \<^verbatim>\<open>raw_value / d\<close> that lies
  exactly halfway between the integers \<open>k\<close> and \<open>k + 1\<close> is displayed as the even one of
  the two, not always as the upper one. The quotient is halfway when Python's division
  returns \<open>k + 1/2\<close>, and it does so when \<open>raw_value\<close> is a float whose exact quotient
  by \<open>d\<close> is \<open>k + 1/2\<close>, a number binary64 holds. A dust level of \<open>12.5\<close> displays
  \<open>0\<close>, and one of \<open>37.5\<close> displays \<open>2\<close>.
\<close>

theorem halfway_quotient_rounds_to_even:
  assumes "fetch upd gsd = Inr snap"
  shows "((cls self = OdorLevel \<and> snap ''odor_level'' = Some raw \<and> d = 33 \<or>
           cls self = DustLevel \<and> snap ''dust_level'' = Some raw \<and> d = 25 \<or>
           cls self = CleanlinessLevel \<and> snap ''cleanliness_level'' = Some raw \<and> d = 25) \<and>
          (py_truediv raw d = Inr (Fin (of_int k + 1 / 2)) \<or>
           (\<exists>x. raw = PyFloat (Fin x) \<and> x / of_int d = of_int k + 1 / 2 \<and>
                \<bar>2 * k + 1\<bar> < 2 ^ 53)) \<longrightarrow>
            displayed (self_after (async_update upd gsd self))
              = Some (PyInt (if even k then k else k + 1))) \<and>
         (cls self = DustLevel \<and> snap ''dust_level'' = Some (PyFloat (Fin (25 / 2))) \<longrightarrow>
            displayed (self_after (async_update upd gsd self)) = Some (PyInt 0)) \<and>
         (cls self = DustLevel \<and> snap ''dust_level'' = Some (PyFloat (Fin (75 / 2))) \<longrightarrow>
            displayed (self_after (async_update upd gsd self)) = Some (PyInt 2))"
proof -
  note plain = assigned_displays [OF assms, THEN conjunct1]
  have half: "round_div raw d = Inr (PyInt (if even k then k else k + 1))"
    if "py_truediv raw d = Inr (Fin (of_int k + 1 / 2))"
    using that by (simp add: round_div_def round_half_even_half)
  have not_None: "raw \<noteq> PyNone" if "py_truediv raw d = Inr (Fin (of_int k + 1 / 2))"
    using that by auto
  have general: "displayed (self_after (async_update upd gsd self))
      = Some (PyInt (if even k then k else k + 1))"
    if c: "cls self = OdorLevel \<and> snap ''odor_level'' = Some raw \<and> d = 33 \<or>
        cls self = DustLevel \<and> snap ''dust_level'' = Some raw \<and> d = 25 \<or>
        cls self = CleanlinessLevel \<and> snap ''cleanliness_level'' = Some raw \<and> d = 25"
      and q: "py_truediv raw d = Inr (Fin (of_int k + 1 / 2)) \<or>
           (\<exists>x. raw = PyFloat (Fin x) \<and> x / of_int d = of_int k + 1 / 2 \<and>
                \<bar>2 * k + 1\<bar> < 2 ^ 53)"
  proof -
    from c have "d = 33 \<or> d = 25"
      by auto
    with q have q': "py_truediv raw d = Inr (Fin (of_int k + 1 / 2))"
      by (auto intro: round_div_float_half)
    from c not_None [OF q'] have "assigned (cls self) snap = round_div raw d"
      by (auto simp: assigned_def getitem_def)
    with half [OF q'] show ?thesis
      by (simp add: plain)
  qed
  have ex1: "displayed (self_after (async_update upd gsd self)) = Some (PyInt 0)"
    if "cls self = DustLevel" "snap ''dust_level'' = Some (PyFloat (Fin (25 / 2)))"
    by (rule plain) (simp add: that assigned_def getitem_def round_div_12_5)
  have ex2: "displayed (self_after (async_update upd gsd self)) = Some (PyInt 2)"
    if "cls self = DustLevel" "snap ''dust_level'' = Some (PyFloat (Fin (75 / 2)))"
    by (rule plain) (simp add: that assigned_def getitem_def round_div_37_5)
  from general ex1 ex2 show ?thesis
    by blast
qed

text \<open>The theorem on a dust level of \<open>37.5\<close>, whose quotient is \<open>1.5\<close>.\<close>

theorem halfway_quotient_rounds_to_even_witness:
  "displayed (self_after (async_update (Inr (map_of [(''dust_level'', PyFloat (Fin (75 / 2)))])) Inr
      (CocoroAirDustLevelSensor \<lparr>device_id = ''dev'', device_info = []\<rparr>)))
     = Some (PyInt 2)"
  using halfway_quotient_rounds_to_even
    [where upd = "Inr (map_of [(''dust_level'', PyFloat (Fin (75 / 2)))])" and gsd = Inr
       and snap = "map_of [(''dust_level'', PyFloat (Fin (75 / 2)))]"
       and self = "CocoroAirDustLevelSensor \<lparr>device_id = ''dev'', device_info = []\<rparr>"
       and raw = "PyFloat (Fin (75 / 2))" and d = 25 and k = 1]
    truediv_37_5
  by (simp add: fetch_def CocoroAirDustLevelSensor_def)

end
